theory Spec2Isabelle
  imports Main
begin

section \<open>JavaScript strings and arrays as the init command uses them\<close>

text \<open>
  A JavaScript string is modelled as an Isabelle \<open>string\<close>, a list of code units below 256.
  The command (\<^verbatim>\<open>src/commands/basic/init.js\<close>) uses \<^verbatim>\<open>startsWith\<close>, \<^verbatim>\<open>includes\<close>,
  \<^verbatim>\<open>split('\n')\<close>, \<^verbatim>\<open>join('\n')\<close>, \<^verbatim>\<open>find\<close>, \<^verbatim>\<open>indexOf\<close> and an indexed
  assignment on the array of lines.
\<close>

definition newline :: char where
  "newline = CHR 0x0A"

fun startsWith :: "string \<Rightarrow> string \<Rightarrow> bool" where
  "startsWith s [] = True"
| "startsWith [] (p # ps) = False"
| "startsWith (c # cs) (p # ps) = (c = p \<and> startsWith cs ps)"

fun str_includes :: "string \<Rightarrow> string \<Rightarrow> bool" where
  "str_includes [] sub = (sub = [])"
| "str_includes (c # cs) sub = (startsWith (c # cs) sub \<or> str_includes cs sub)"

text \<open>\<^verbatim>\<open>s.split('\n')\<close>: never the empty array; \<^verbatim>\<open>''.split('\n')\<close> is \<^verbatim>\<open>['']\<close>.\<close>

fun split_lines :: "string \<Rightarrow> string list" where
  "split_lines [] = [[]]"
| "split_lines (c # cs) =
     (if c = newline then [] # split_lines cs
      else (case split_lines cs of
              [] \<Rightarrow> [[c]]
            | l # ls \<Rightarrow> (c # l) # ls))"

text \<open>\<^verbatim>\<open>xs.join('\n')\<close>: the empty array joins to the empty string.\<close>

fun join_lines :: "string list \<Rightarrow> string" where
  "join_lines [] = []"
| "join_lines [x] = x"
| "join_lines (x # y # r) = x @ newline # join_lines (y # r)"

text \<open>
  \<^verbatim>\<open>xs.indexOf(v)\<close> where \<^verbatim>\<open>v\<close> is the result of \<^verbatim>\<open>xs.find(...)\<close>: a string, or
  \<^verbatim>\<open>undefined\<close> (here \<open>None\<close>) when no element was found. The elements are strings, so
  \<^verbatim>\<open>undefined\<close> is strictly equal to none of them and the result is \<open>-1\<close>.
\<close>

fun indexOf :: "string list \<Rightarrow> string option \<Rightarrow> int" where
  "indexOf xs None = - 1"
| "indexOf [] (Some v) = - 1"
| "indexOf (x # xs) (Some v) =
     (if x = v then 0
      else (let i = indexOf xs (Some v) in if i < 0 then - 1 else i + 1))"

text \<open>
  \<^verbatim>\<open>xs[i] = v\<close> on an array of strings. A negative \<open>i\<close> is not an array index: the
  assignment creates the property \<^verbatim>\<open>"-1"\<close> on the array object and leaves the elements and
  the length as they are. An index at or beyond the length extends the array; the holes
  in between are rendered by \<^verbatim>\<open>join\<close> as empty strings, which is how they are kept here.
\<close>

definition array_set :: "string list \<Rightarrow> int \<Rightarrow> string \<Rightarrow> string list" where
  "array_set xs i v =
     (if i < 0 then xs
      else if nat i < length xs then xs[nat i := v]
      else xs @ replicate (nat i - length xs) [] @ [v])"

section \<open>JSON.parse and JSON.stringify on flat objects\<close>

text \<open>
  The command parses the \<^verbatim>\<open>mevn.json\<close> it has just written and prints the object back.
  The model covers the JSON texts that are one object whose members are strings,
  \<^verbatim>\<open>true\<close>, \<^verbatim>\<open>false\<close> or \<^verbatim>\<open>null\<close>. Numbers, arrays, nested objects, keys that are
  decimal numerals (JavaScript orders those first) and escapes of code units above 255
  are outside of it: \<open>json_parse\<close> is \<open>None\<close> on them, as it is on a text that
  \<^verbatim>\<open>JSON.parse\<close> rejects with a SyntaxError.
\<close>

datatype jval = JStr string | JBool bool | JNull

type_synonym jobj = "(string \<times> jval) list"

datatype token = LBrace | RBrace | Colon | Comma | TStr string | TTrue | TFalse | TNull

definition is_ws :: "char \<Rightarrow> bool" where
  "is_ws c = (c = CHR '' '' \<or> c = CHR 0x09 \<or> c = CHR 0x0A \<or> c = CHR 0x0D)"

definition is_control :: "char \<Rightarrow> bool" where
  "is_control c = ((of_char c :: nat) < 32)"

definition unescape :: "char \<Rightarrow> char option" where
  "unescape e =
     (if e = CHR 0x22 then Some (CHR 0x22)
      else if e = CHR 0x5C then Some (CHR 0x5C)
      else if e = CHR ''/'' then Some (CHR ''/'')
      else if e = CHR ''b'' then Some (CHR 0x08)
      else if e = CHR ''f'' then Some (CHR 0x0C)
      else if e = CHR ''n'' then Some (CHR 0x0A)
      else if e = CHR ''r'' then Some (CHR 0x0D)
      else if e = CHR ''t'' then Some (CHR 0x09)
      else None)"

definition hex_val :: "char \<Rightarrow> nat option" where
  "hex_val c =
     (let n = (of_char c :: nat) in
      if 48 \<le> n \<and> n \<le> 57 then Some (n - 48)
      else if 97 \<le> n \<and> n \<le> 102 then Some (n - 87)
      else if 65 \<le> n \<and> n \<le> 70 then Some (n - 55)
      else None)"

fun hex4 :: "string \<Rightarrow> nat option" where
  "hex4 [a, b, c, d] =
     (case (hex_val a, hex_val b, hex_val c, hex_val d) of
        (Some w, Some x, Some y, Some z) \<Rightarrow> Some (((w * 16 + x) * 16 + y) * 16 + z)
      | _ \<Rightarrow> None)"
| "hex4 _ = None"

text \<open>
  The lexer. Its first argument is \<open>None\<close> between tokens and \<open>Some acc\<close> inside a string
  literal whose characters so far are \<open>acc\<close>, last one first.
\<close>

fun lex :: "string option \<Rightarrow> string \<Rightarrow> token list option" where
  "lex None [] = Some []"
| "lex (Some acc) [] = None"
| "lex None (c # cs) =
     (if is_ws c then lex None cs
      else if c = CHR ''{'' then map_option ((#) LBrace) (lex None cs)
      else if c = CHR ''}'' then map_option ((#) RBrace) (lex None cs)
      else if c = CHR '':'' then map_option ((#) Colon) (lex None cs)
      else if c = CHR '','' then map_option ((#) Comma) (lex None cs)
      else if c = CHR 0x22 then lex (Some []) cs
      else if c = CHR ''t'' \<and> take 3 cs = ''rue''
        then map_option ((#) TTrue) (lex None (drop 3 cs))
      else if c = CHR ''f'' \<and> take 4 cs = ''alse''
        then map_option ((#) TFalse) (lex None (drop 4 cs))
      else if c = CHR ''n'' \<and> take 3 cs = ''ull''
        then map_option ((#) TNull) (lex None (drop 3 cs))
      else None)"
| "lex (Some acc) (c # cs) =
     (if c = CHR 0x22 then map_option ((#) (TStr (rev acc))) (lex None cs)
      else if c = CHR 0x5C then
        (case cs of
           [] \<Rightarrow> None
         | e # cs' \<Rightarrow>
             if e = CHR ''u'' then
               (case hex4 (take 4 cs') of
                  None \<Rightarrow> None
                | Some n \<Rightarrow>
                    if n < 256 then lex (Some (char_of n # acc)) (drop 4 cs') else None)
             else
               (case unescape e of
                  None \<Rightarrow> None
                | Some d \<Rightarrow> lex (Some (d # acc)) cs'))
      else if is_control c then None
      else lex (Some (c # acc)) cs)"

text \<open>
  \<^verbatim>\<open>obj[k] = v\<close> on an ordinary object whose keys are not array indices: an existing key
  keeps its place, a new key goes last. \<^verbatim>\<open>JSON.parse\<close> defines each member the same way,
  so a repeated key takes its last value.
\<close>

fun obj_set :: "jobj \<Rightarrow> string \<Rightarrow> jval \<Rightarrow> jobj" where
  "obj_set [] k v = [(k, v)]"
| "obj_set ((k', v') # r) k v =
     (if k' = k then (k, v) # r else (k', v') # obj_set r k v)"

definition is_digit :: "char \<Rightarrow> bool" where
  "is_digit c = (48 \<le> (of_char c :: nat) \<and> (of_char c :: nat) \<le> 57)"

definition is_numeral_key :: "string \<Rightarrow> bool" where
  "is_numeral_key k = (k \<noteq> [] \<and> list_all is_digit k)"

fun tok_value :: "token \<Rightarrow> jval option" where
  "tok_value (TStr s) = Some (JStr s)"
| "tok_value TTrue = Some (JBool True)"
| "tok_value TFalse = Some (JBool False)"
| "tok_value TNull = Some JNull"
| "tok_value _ = None"

fun members :: "token list \<Rightarrow> jobj \<Rightarrow> jobj option" where
  "members (TStr k # Colon # v # sep # rest) acc =
     (case tok_value v of
        None \<Rightarrow> None
      | Some x \<Rightarrow>
          if is_numeral_key k then None
          else if sep = RBrace \<and> rest = [] then Some (obj_set acc k x)
          else if sep = Comma then members rest (obj_set acc k x)
          else None)"
| "members _ acc = None"

definition json_parse :: "string \<Rightarrow> jobj option" where
  "json_parse text =
     (case lex None text of
        None \<Rightarrow> None
      | Some toks \<Rightarrow>
          (case toks of
             LBrace # rest \<Rightarrow> (if rest = [RBrace] then Some [] else members rest [])
           | _ \<Rightarrow> None))"

definition hex_digit :: "nat \<Rightarrow> char" where
  "hex_digit n = (if n < 10 then char_of (48 + n) else char_of (87 + n))"

definition escape :: "char \<Rightarrow> string" where
  "escape c =
     (if c = CHR 0x22 then [CHR 0x5C, CHR 0x22]
      else if c = CHR 0x5C then [CHR 0x5C, CHR 0x5C]
      else if c = CHR 0x08 then [CHR 0x5C, CHR ''b'']
      else if c = CHR 0x0C then [CHR 0x5C, CHR ''f'']
      else if c = CHR 0x0A then [CHR 0x5C, CHR ''n'']
      else if c = CHR 0x0D then [CHR 0x5C, CHR ''r'']
      else if c = CHR 0x09 then [CHR 0x5C, CHR ''t'']
      else if is_control c then
        [CHR 0x5C, CHR ''u'', CHR ''0'', CHR ''0'',
         hex_digit ((of_char c :: nat) div 16), hex_digit ((of_char c :: nat) mod 16)]
      else [c])"

definition json_quote :: "string \<Rightarrow> string" where
  "json_quote s = CHR 0x22 # concat (map escape s) @ [CHR 0x22]"

fun render_value :: "jval \<Rightarrow> string" where
  "render_value (JStr s) = json_quote s"
| "render_value (JBool b) = (if b then ''true'' else ''false'')"
| "render_value JNull = ''null''"

fun render_members :: "jobj \<Rightarrow> string" where
  "render_members [] = []"
| "render_members [(k, v)] = json_quote k @ '':'' @ render_value v"
| "render_members ((k, v) # m # r) =
     json_quote k @ '':'' @ render_value v @ '','' @ render_members (m # r)"

definition json_stringify :: "jobj \<Rightarrow> string" where
  "json_stringify obj = ''{'' @ render_members obj @ ''}''"

section \<open>The world around the command\<close>

text \<open>
  Everything the command sees of its surroundings is a field of \<open>env\<close>: the process
  arguments, the answers typed at the three prompts, the verdict of the package-name
  validator (\<^verbatim>\<open>validate-npm-package-name\<close>), whether a path exists, how each subprocess
  ends (\<open>None\<close> for exit status zero, \<open>Some err\<close> for the error \<^verbatim>\<open>execa\<close> rejects with),
  the files a clone of a URL checks out, the platform flag \<^verbatim>\<open>isWin\<close> and \<^verbatim>\<open>path.join\<close>.
  What the command does to the world is recorded as a list of events, in order.
\<close>

text \<open>
  A list prompt of \<^verbatim>\<open>inquirer\<close> answers with one of the choices it was given: the
  template prompt with one of four labels, the mode prompt with one of two. The confirm
  prompt answers with a boolean.
\<close>

datatype choice = Choice_basic | Choice_pwa | Choice_graphql | Choice_Nuxt_js

fun choice_label :: "choice \<Rightarrow> string" where
  "choice_label Choice_basic = ''basic''"
| "choice_label Choice_pwa = ''pwa''"
| "choice_label Choice_graphql = ''graphql''"
| "choice_label Choice_Nuxt_js = ''Nuxt-js''"

datatype mode_choice = Universal | SPA

fun mode_label :: "mode_choice \<Rightarrow> string" where
  "mode_label Universal = ''Universal''"
| "mode_label SPA = ''SPA''"

datatype error =
    StrayArgumentsError
  | InvalidNameError string
  | DirectoryExistsError string
  | EnvironmentError string
  | Thrown string
  | SyntaxError

text \<open>
  The arguments of a subprocess are \<open>string option\<close>: \<^verbatim>\<open>boilerplate[template]\<close> is
  \<^verbatim>\<open>undefined\<close> (here \<open>None\<close>) for a template that is not a key of the table.
\<close>

datatype event =
    Banner string string
  | ErrorMessage error
  | Prompt string
  | ExistsSync string
  | Probe string
  | SpinnerStart string
  | SpinnerFail string
  | SpinnerStop
  | Exec string "string option list"
  | ShellSync string
  | ReadFile string
  | WriteFile string string
  | Log string
  | PrintTable "(string \<times> string) list"
  | Chdir string

record env =
  argv :: "string list"
  validForNewPackages :: "string \<Rightarrow> bool"
  existsSync :: "string \<Rightarrow> bool"
  answer_template :: choice
  answer_requirePwaSupport :: bool
  answer_mode :: mode_choice
  installed :: "string \<Rightarrow> bool"
  execa :: "string \<Rightarrow> string option list \<Rightarrow> string option"
  shellSync :: "string \<Rightarrow> string option"
  checkout :: "string option \<Rightarrow> string \<rightharpoonup> string"
  isWin :: bool
  path_join :: "string \<Rightarrow> string \<Rightarrow> string"

text \<open>
  The state: the files (path to content), the events so far, and the three module-level
  variables \<^verbatim>\<open>projectName\<close>, \<^verbatim>\<open>projectConfig\<close> and \<^verbatim>\<open>availableCommands\<close>.
\<close>

record state =
  fs :: "string \<rightharpoonup> string"
  trace :: "event list"
  projectName :: string
  projectConfig :: "string list"
  availableCommands :: "(string \<times> string) list"

definition init_state :: "(string \<rightharpoonup> string) \<Rightarrow> state" where
  "init_state files =
     \<lparr>fs = files, trace = [], projectName = [], projectConfig = [], availableCommands = []\<rparr>"

definition emit :: "event \<Rightarrow> state \<Rightarrow> state" where
  "emit e s = s\<lparr>trace := trace s @ [e]\<rparr>"

definition writeFileSync :: "string \<Rightarrow> string \<Rightarrow> state \<Rightarrow> state" where
  "writeFileSync p content s = emit (WriteFile p content) (s\<lparr>fs := (fs s)(p \<mapsto> content)\<rparr>)"

text \<open>\<^verbatim>\<open>fs.readFileSync\<close> throws when there is no file at the path.\<close>

definition readFileSync :: "string \<Rightarrow> state \<Rightarrow> (error + string) \<times> state" where
  "readFileSync p s =
     (case fs s p of
        None \<Rightarrow> (Inl (Thrown ''ENOENT''), emit (ReadFile p) s)
      | Some content \<Rightarrow> (Inr content, emit (ReadFile p) s))"

text \<open>
  A successful \<^verbatim>\<open>git clone url dir\<close> puts the files of the repository under
  \<^verbatim>\<open>./dir/\<close>; every other path keeps its content.
\<close>

fun strip_prefix :: "string \<Rightarrow> string \<Rightarrow> string option" where
  "strip_prefix [] s = Some s"
| "strip_prefix (p # ps) [] = None"
| "strip_prefix (p # ps) (c # cs) = (if p = c then strip_prefix ps cs else None)"

definition install :: "string \<Rightarrow> (string \<rightharpoonup> string) \<Rightarrow> (string \<rightharpoonup> string) \<Rightarrow> (string \<rightharpoonup> string)" where
  "install dir files old =
     (\<lambda>p. case strip_prefix (''./'' @ dir @ ''/'') p of
            None \<Rightarrow> old p
          | Some rel \<Rightarrow> (case files rel of None \<Rightarrow> old p | Some content \<Rightarrow> Some content))"

section \<open>The helpers imported from utils\<close>

text \<open>
  Modelled from the spec: \<^verbatim>\<open>hasStrayArgs\<close>, \<^verbatim>\<open>invalidProjectName\<close> and
  \<^verbatim>\<open>directoryExistsInPath\<close> of \<^verbatim>\<open>utils/messages\<close> are not among the sources. The
  specification says that each reports its message and that the failure is terminal for
  the workflow (the process exits).
\<close>

definition hasStrayArgs :: "state \<Rightarrow> (error + unit) \<times> state" where
  "hasStrayArgs s = (Inl StrayArgumentsError, emit (ErrorMessage StrayArgumentsError) s)"

definition invalidProjectName :: "string \<Rightarrow> state \<Rightarrow> (error + unit) \<times> state" where
  "invalidProjectName appName s =
     (Inl (InvalidNameError appName), emit (ErrorMessage (InvalidNameError appName)) s)"

definition directoryExistsInPath :: "string \<Rightarrow> state \<Rightarrow> (error + unit) \<times> state" where
  "directoryExistsInPath appName s =
     (Inl (DirectoryExistsError appName), emit (ErrorMessage (DirectoryExistsError appName)) s)"

text \<open>
  Modelled from the spec: \<^verbatim>\<open>validateInstallation\<close> of \<^verbatim>\<open>utils/validate\<close> is not among
  the sources. The specification says that it verifies the client by invoking the no-op
  help command and, when the client is absent, aborts with an environment error.
\<close>

definition validateInstallation :: "env \<Rightarrow> string \<Rightarrow> state \<Rightarrow> (error + unit) \<times> state" where
  "validateInstallation e cmd s =
     (if installed e cmd then (Inr (), emit (Probe cmd) s)
      else (Inl (EnvironmentError cmd), emit (Probe cmd) s))"

section \<open>The init command\<close>

text \<open>
  The table \<^verbatim>\<open>boilerplate\<close>, with its four keys. \<^verbatim>\<open>initializeProject\<close> looks up no
  other key.
\<close>

definition boilerplate :: "string \<rightharpoonup> string" where
  "boilerplate =
     [''basic'' \<mapsto> ''https://github.com/madlabsinc/mevn-boilerplate.git'',
      ''pwa'' \<mapsto> ''https://github.com/madlabsinc/mevn-pwa-boilerplate.git'',
      ''graphql'' \<mapsto> ''https://github.com/madlabsinc/mevn-graphql-boilerplate.git'',
      ''nuxt'' \<mapsto> ''https://github.com/madlabsinc/mevn-nuxt-boilerplate.git'']"

text \<open>
  \<^verbatim>\<open>makeInitialCommit\<close>: each \<^verbatim>\<open>await execa\<close> that rejects ends the function with that
  error.
\<close>

definition makeInitialCommit :: "env \<Rightarrow> state \<Rightarrow> (error + unit) \<times> state" where
  "makeInitialCommit e s =
     (let s1 = emit (Chdir (projectName s)) s;
          s2 = emit (Exec ''git'' [Some ''init'']) s1
      in case execa e ''git'' [Some ''init''] of
           Some err \<Rightarrow> (Inl (Thrown err), s2)
         | None \<Rightarrow>
             (let s3 = emit (Exec ''git'' [Some ''add'', Some ''.'']) s2
              in case execa e ''git'' [Some ''add'', Some ''.''] of
                   Some err \<Rightarrow> (Inl (Thrown err), s3)
                 | None \<Rightarrow>
                     (let args = [Some ''commit'', Some ''-m'', Some ''Initial commit'',
                                  Some ''-m'', Some ''From Mevn-CLI''];
                          s4 = emit (Exec ''git'' args) s3
                      in case execa e ''git'' args of
                           Some err \<Rightarrow> (Inl (Thrown err), s4)
                         | None \<Rightarrow> (Inr (), s4))))"

definition command_rows :: "(string \<times> string) list" where
  "command_rows =
     [(''mevn init'', ''To bootstrap a MEVN webapp''),
      (''mevn serve'', ''To launch client/server''),
      (''mevn add:package'', ''Add additional packages''),
      (''mevn generate'', ''To generate config files''),
      (''mevn codesplit <name>'', ''Lazy load components''),
      (''mevn dockerize'', ''Launch within docker containers''),
      (''mevn deploy'', ''Deploy the app to Heroku''),
      (''mevn info'', ''Prints local environment information'')]"

text \<open>Lines 97 and 98: the command that removes the history of the clone.\<close>

definition remove_command :: "env \<Rightarrow> string \<Rightarrow> string" where
  "remove_command e dir =
     (let removeCmd = (if isWin e then ''rmdir /s /q'' else ''rm -rf'')
      in removeCmd @ '' '' @ path_join e dir ''.git'')"

text \<open>
  \<^verbatim>\<open>showCommandsList\<close>. The colours that \<^verbatim>\<open>chalk\<close> adds to the printed lines are left
  out. \<^verbatim>\<open>execa.shellSync\<close> throws when the command fails. \<^verbatim>\<open>makeInitialCommit()\<close> is
  called without \<^verbatim>\<open>await\<close>: its events happen, its error does not reach this function.
\<close>

definition showCommandsList :: "env \<Rightarrow> state \<Rightarrow> (error + unit) \<times> state" where
  "showCommandsList e s =
     (let s1 = emit (Log '' Available commands:-'') (emit (Log []) s);
          s2 = s1\<lparr>availableCommands := availableCommands s1 @ command_rows\<rparr>;
          s3 = emit (PrintTable (availableCommands s2)) s2;
          s4 = emit (Log ('' Make sure that you've done cd '' @ projectName s3))
                 (emit (Log []) (emit (Log []) s3));
          s5 = emit (Log '' Warning:  Do not delete the mevn.json file'') (emit (Log []) s4);
          cmd = remove_command e (projectName s5);
          s6 = emit (ShellSync cmd) s5
      in case shellSync e cmd of
           Some err \<Rightarrow> (Inl (Thrown err), s6)
         | None \<Rightarrow> (Inr (), snd (makeInitialCommit e s6)))"

text \<open>
  \<^verbatim>\<open>fetchTemplate\<close>, in three parts. The first is the follow-up question on PWA support
  (lines 129 to 146 of the source), the second the one on the rendering mode (lines 148
  to 172); both belong to the branch \<^verbatim>\<open>template === 'nuxt'\<close>.
\<close>

definition mevn_json :: "state \<Rightarrow> string" where
  "mevn_json s = ''./'' @ projectName s @ ''/mevn.json''"

definition nuxt_config :: "state \<Rightarrow> string" where
  "nuxt_config s = ''./'' @ projectName s @ ''/nuxt.config.js''"

definition universal_line :: string where
  "universal_line = '' mode: 'universal','' "

definition pwa_followup :: "env \<Rightarrow> state \<Rightarrow> (error + unit) \<times> state" where
  "pwa_followup e s =
     (let s1 = emit (Prompt ''requirePwaSupport'') s
      in if answer_requirePwaSupport e then
           (case readFileSync (mevn_json s1) s1 of
              (Inl err, s2) \<Rightarrow> (Inl err, s2)
            | (Inr text, s2) \<Rightarrow>
                (case json_parse text of
                   None \<Rightarrow> (Inl SyntaxError, s2)
                 | Some configFile \<Rightarrow>
                     (Inr (),
                      writeFileSync (mevn_json s2)
                        (json_stringify (obj_set configFile ''isPwa'' (JBool True))) s2)))
         else (Inr (), s1))"

definition mode_followup :: "env \<Rightarrow> state \<Rightarrow> (error + unit) \<times> state" where
  "mode_followup e s =
     (let s1 = emit (Prompt ''mode'') s
      in if mode_label (answer_mode e) = ''Universal'' then
           (case readFileSync (nuxt_config s1) s1 of
              (Inl err, s2) \<Rightarrow> (Inl err, s2)
            | (Inr text, s2) \<Rightarrow>
                (let configFile = split_lines text;
                     index = indexOf configFile
                               (find (\<lambda>line. str_includes line ''mode'') configFile);
                     configFile' = array_set configFile index universal_line
                 in (Inr (), writeFileSync (nuxt_config s2) (join_lines configFile') s2)))
         else (Inr (), s1))"

definition fetchTemplate :: "env \<Rightarrow> string \<Rightarrow> state \<Rightarrow> (error + unit) \<times> state" where
  "fetchTemplate e template s =
     (case validateInstallation e ''git help -g'' s of
        (Inl err, s1) \<Rightarrow> (Inl err, s1)
      | (Inr u, s1) \<Rightarrow>
          (let s2 = emit (SpinnerStart ''Fetching the boilerplate template'') s1;
               args = [Some ''clone'', boilerplate template, Some (projectName s2)];
               s3 = emit (Exec ''git'' args) s2
           in case execa e ''git'' args of
                Some err \<Rightarrow> (Inl (Thrown err), emit (SpinnerFail ''Something went wrong'') s3)
              | None \<Rightarrow>
                  (let s4 = s3\<lparr>fs := install (projectName s3)
                                        (checkout e (boilerplate template)) (fs s3)\<rparr>;
                       s5 = emit SpinnerStop s4;
                       s6 = writeFileSync (mevn_json s5) (join_lines (projectConfig s5)) s5
                   in if template = ''nuxt'' then
                        (case pwa_followup e s6 of
                           (Inl err, s7) \<Rightarrow> (Inl err, s7)
                         | (Inr u, s7) \<Rightarrow>
                             (case mode_followup e s7 of
                                (Inl err, s8) \<Rightarrow> (Inl err, s8)
                              | (Inr u, s8) \<Rightarrow> showCommandsList e s8))
                      else showCommandsList e s6)))"

text \<open>\<^verbatim>\<open>process.argv[i]\<close> is \<^verbatim>\<open>undefined\<close> (here \<open>None\<close>) beyond the arguments given.\<close>

definition argv_at :: "string list \<Rightarrow> nat \<Rightarrow> string option" where
  "argv_at xs i = (if i < length xs then Some (xs ! i) else None)"

text \<open>
  \<^verbatim>\<open>process.argv[4] && !process.argv[4].startsWith('-')\<close>, as the condition of an
  \<^verbatim>\<open>if\<close>: \<^verbatim>\<open>undefined\<close> and the empty string are both falsy.
\<close>

definition hasMultipleProjectNameArgs :: "env \<Rightarrow> bool" where
  "hasMultipleProjectNameArgs e =
     (case argv_at (argv e) 4 of
        None \<Rightarrow> False
      | Some a \<Rightarrow> a \<noteq> [] \<and> \<not> startsWith a ''-'')"

text \<open>Lines 222 to 224: the label \<^verbatim>\<open>Nuxt-js\<close> becomes the key \<^verbatim>\<open>nuxt\<close>.\<close>

definition canonical_key :: "string \<Rightarrow> string" where
  "canonical_key template = (if template = ''Nuxt-js'' then ''nuxt'' else template)"

definition config_lines :: "string \<Rightarrow> string \<Rightarrow> string list" where
  \<open>config_lines appName template =
     [''{'',
      ''"name": "'' @ appName @ ''",'',
      ''"template": "'' @ template @ ''"'',
      ''}'']\<close>

text \<open>
  \<^verbatim>\<open>initializeProject\<close>. Its last statement calls \<^verbatim>\<open>fetchTemplate\<close> without
  \<^verbatim>\<open>await\<close>; the result here is how that call ends.
\<close>

definition initializeProject :: "env \<Rightarrow> string \<Rightarrow> state \<Rightarrow> (error + unit) \<times> state" where
  "initializeProject e appName s =
     (let s1 = emit (Banner ''Mevn CLI'' ''Light speed setup for MEVN stack based apps.'') s
      in if hasMultipleProjectNameArgs e then hasStrayArgs s1
         else if \<not> validForNewPackages e appName then invalidProjectName appName s1
         else
           (let s2 = emit (ExistsSync appName) s1
            in if existsSync e appName then directoryExistsInPath appName s2
               else
                 (let s3 = s2\<lparr>projectName := appName\<rparr>;
                      s4 = emit (Prompt ''template'') s3;
                      template = choice_label (answer_template e);
                      s5 = s4\<lparr>projectConfig := config_lines appName template\<rparr>
                  in fetchTemplate e (canonical_key template) s5)))"

section \<open>Notions used to state the properties\<close>

text \<open>
  A name is plain when it can stand between double quotes in a JSON text as it is: no
  double quote, no backslash, no control character. Every name that
  \<^verbatim>\<open>validate-npm-package-name\<close> accepts for a new package is plain (it is made of
  URL-safe characters).
\<close>

definition json_plain :: "string \<Rightarrow> bool" where
  "json_plain s = list_all (\<lambda>c. c \<noteq> CHR 0x22 \<and> c \<noteq> CHR 0x5C \<and> \<not> is_control c) s"

text \<open>The member \<open>k\<close> of the object that the project's \<^verbatim>\<open>mevn.json\<close> holds.\<close>

definition mevn_member :: "string \<Rightarrow> state \<Rightarrow> jval option" where
  "mevn_member k s =
     (case fs s (mevn_json s) of
        None \<Rightarrow> None
      | Some text \<Rightarrow> (case json_parse text of None \<Rightarrow> None | Some obj \<Rightarrow> map_of obj k))"

text \<open>The three validations of \<^verbatim>\<open>initializeProject\<close> let the name through.\<close>

definition passes_validation :: "env \<Rightarrow> string \<Rightarrow> bool" where
  "passes_validation e appName =
     (\<not> hasMultipleProjectNameArgs e \<and> validForNewPackages e appName \<and> \<not> existsSync e appName)"

text \<open>The client is there and the clone of the template's repository exits with status zero.\<close>

definition clone_succeeds :: "env \<Rightarrow> string \<Rightarrow> string \<Rightarrow> bool" where
  "clone_succeeds e template dir =
     (installed e ''git help -g''
      \<and> execa e ''git'' [Some ''clone'', boilerplate template, Some dir] = None)"

text \<open>The event reads or writes the file at \<open>p\<close>.\<close>

fun touches :: "string \<Rightarrow> event \<Rightarrow> bool" where
  "touches p (ReadFile q) = (p = q)"
| "touches p (WriteFile q content) = (p = q)"
| "touches p ev = False"

text \<open>The event starts a subprocess.\<close>

fun subprocess :: "event \<Rightarrow> bool" where
  "subprocess (Exec cmd args) = True"
| "subprocess (ShellSync cmd) = True"
| "subprocess ev = False"


text \<open>
  Two states of \<^verbatim>\<open>initializeProject\<close> and \<^verbatim>\<open>fetchTemplate\<close> that the proofs name: the
  one in which \<^verbatim>\<open>fetchTemplate\<close> is called (after line 220), and the one right after the
  first write of \<^verbatim>\<open>mevn.json\<close> (after line 126).
\<close>

definition prompted :: "env \<Rightarrow> string \<Rightarrow> state \<Rightarrow> state" where
  "prompted e appName s =
     (emit (Prompt ''template'')
        ((emit (ExistsSync appName)
           (emit (Banner ''Mevn CLI'' ''Light speed setup for MEVN stack based apps.'') s))
         \<lparr>projectName := appName\<rparr>))
     \<lparr>projectConfig := config_lines appName (choice_label (answer_template e))\<rparr>"

definition cloned :: "env \<Rightarrow> string \<Rightarrow> state \<Rightarrow> state" where
  "cloned e template s =
     writeFileSync (mevn_json s) (join_lines (projectConfig s))
       (emit SpinnerStop
          ((emit (Exec ''git'' [Some ''clone'', boilerplate template, Some (projectName s)])
             (emit (SpinnerStart ''Fetching the boilerplate template'')
                (emit (Probe ''git help -g'') s)))
           \<lparr>fs := install (projectName s) (checkout e (boilerplate template)) (fs s)\<rparr>))"

text \<open>The tokens of a printed object, and the objects that \<open>json_parse\<close> returns.\<close>

fun value_token :: "jval \<Rightarrow> token" where
  "value_token (JStr s) = TStr s"
| "value_token (JBool b) = (if b then TTrue else TFalse)"
| "value_token JNull = TNull"

fun member_tokens :: "jobj \<Rightarrow> token list" where
  "member_tokens [] = []"
| "member_tokens [(k, v)] = [TStr k, Colon, value_token v]"
| "member_tokens ((k, v) # m # r) =
     TStr k # Colon # value_token v # Comma # member_tokens (m # r)"

definition wf_obj :: "jobj \<Rightarrow> bool" where
  "wf_obj obj =
     (distinct (map fst obj) \<and> list_all (\<lambda>k. \<not> is_numeral_key k) (map fst obj))"

subsection \<open>Sample runs\<close>

definition sample_args :: "string list" where
  "sample_args = [''node'', ''mevn'', ''init'', ''my-app'']"

definition config_with_mode :: string where
  "config_with_mode =
     join_lines [''export default {'', ''  mode: 'spa','', ''  head: {},'',
                 ''  // mode is spa or universal'', ''}'']"

definition config_without_mode :: string where
  "config_without_mode = join_lines [''export default {'', ''  head: {}'', ''}'']"

definition clone_fails :: "string \<Rightarrow> string option list \<Rightarrow> string option" where
  "clone_fails cmd args = (if take 1 args = [Some ''clone''] then Some ''exit code 128'' else None)"


definition sample_env :: "string list \<Rightarrow> choice \<Rightarrow> bool \<Rightarrow> mode_choice \<Rightarrow> string \<Rightarrow> env" where
  "sample_env args c pwa m config =
     \<lparr>argv = args,
      validForNewPackages = (\<lambda>n. n = ''my-app'' \<or> n = ''taken''),
      existsSync = (\<lambda>p. p = ''taken''),
      answer_template = c,
      answer_requirePwaSupport = pwa,
      answer_mode = m,
      installed = (\<lambda>cmd. True),
      execa = (\<lambda>cmd a. None),
      shellSync = (\<lambda>cmd. None),
      checkout = (\<lambda>url. [''nuxt.config.js'' \<mapsto> config]),
      isWin = False,
      path_join = (\<lambda>a b. a @ ''/'' @ b)\<rparr>"

section \<open>Lines of text\<close>


lemma split_lines_not_Nil: "split_lines s \<noteq> []"
  by (induction s) (auto split: list.splits)


lemma join_split_lines: "join_lines (split_lines s) = s"
proof (induction s)
  case Nil
  show ?case by simp
next
  case (Cons c cs)
  obtain l ls where sp: "split_lines cs = l # ls"
    using split_lines_not_Nil [of cs] by (cases "split_lines cs") auto
  show ?case
  proof (cases "c = newline")
    case True
    with Cons sp show ?thesis by simp
  next
    case False
    with Cons sp show ?thesis by (cases ls) auto
  qed
qed





section \<open>Parsing what was printed\<close>


lemma json_plain_Cons:
  "json_plain (c # cs) = (c \<noteq> CHR 0x22 \<and> c \<noteq> CHR 0x5C \<and> \<not> is_control c \<and> json_plain cs)"
  by (simp add: json_plain_def)

lemma lex_plain:
  "json_plain n \<Longrightarrow>
     lex (Some acc) (n @ CHR 0x22 # rest) = map_option ((#) (TStr (rev acc @ n))) (lex None rest)"
  by (induction n arbitrary: acc) (simp_all add: json_plain_Cons)

lemma not_numeral_name: "\<not> is_numeral_key ''name''" "\<not> is_numeral_key ''template''" "\<not> is_numeral_key ''isPwa''"
  by (simp_all add: is_numeral_key_def is_digit_def)

lemma parse_config:
  "json_plain n \<Longrightarrow> json_plain t \<Longrightarrow>
     json_parse (join_lines (config_lines n t)) = Some [(''name'', JStr n), (''template'', JStr t)]"
  by (simp add: json_parse_def config_lines_def newline_def is_ws_def is_control_def lex_plain
      not_numeral_name)

lemma plain_labels: "json_plain (choice_label c)"
  by (cases c) (simp_all add: json_plain_def is_control_def)



lemma hex_control:
  "(of_char c :: nat) < 32 \<Longrightarrow>
     hex4 [CHR ''0'', CHR ''0'', hex_digit (of_char c div 16), hex_digit (of_char c mod 16)] = Some (of_char c)"
proof -
  assume lt: "(of_char c :: nat) < 32"
  define n where "n = (of_char c :: nat)"
  have d: "n div 16 < 2" and m: "n mod 16 < 16" using lt by (auto simp: n_def)
  have hv: "\<And>k. k < 16 \<Longrightarrow> hex_val (hex_digit k) = Some k"
    by (simp add: hex_val_def hex_digit_def Let_def)
  have "hex_val (CHR ''0'') = Some 0" by (simp add: hex_val_def)
  moreover have "hex_val (hex_digit (n div 16)) = Some (n div 16)" using d by (intro hv) simp
  moreover have "hex_val (hex_digit (n mod 16)) = Some (n mod 16)" using m by (intro hv)
  ultimately show ?thesis by (simp add: n_def [symmetric])
qed


lemma lex_escape_char:
  "lex (Some acc) (escape c @ rest) = lex (Some (c # acc)) rest"
proof (cases "is_control c")
  case False
  then show ?thesis by (simp add: escape_def unescape_def)
next
  case True
  then have lt: "(of_char c :: nat) < 32" by (simp add: is_control_def)
  have nq: "c \<noteq> CHR 0x22" "c \<noteq> CHR 0x5C" using lt by auto
  show ?thesis
  proof (cases "c = CHR 0x08 \<or> c = CHR 0x0C \<or> c = CHR 0x0A \<or> c = CHR 0x0D \<or> c = CHR 0x09")
    case True
    then show ?thesis by (auto simp: escape_def unescape_def)
  next
    case False
    with nq True have e: "escape c = [CHR 0x5C, CHR ''u'', CHR ''0'', CHR ''0'',
         hex_digit ((of_char c :: nat) div 16), hex_digit ((of_char c :: nat) mod 16)]"
      by (simp add: escape_def)
    show ?thesis
      using lt by (simp add: e hex_control del: hex4.simps)
  qed
qed

lemma lex_escape:
  "lex (Some acc) (concat (map escape s) @ CHR 0x22 # rest)
     = map_option ((#) (TStr (rev acc @ s))) (lex None rest)"
proof (induction s arbitrary: acc)
  case Nil
  show ?case by simp
next
  case (Cons c s)
  show ?case by (simp add: lex_escape_char Cons.IH)
qed

lemma lex_quote:
  "lex None (json_quote s @ rest) = map_option ((#) (TStr s)) (lex None rest)"
  using lex_escape [of "[]" s rest] by (simp add: json_quote_def is_ws_def)

lemma lex_value:
  "lex None (render_value v @ rest) = map_option ((#) (value_token v)) (lex None rest)"
proof (cases v)
  case (JStr s)
  then show ?thesis by (simp add: lex_quote)
next
  case (JBool b)
  then show ?thesis by (simp add: is_ws_def)
next
  case JNull
  then show ?thesis by (simp add: is_ws_def)
qed

lemma lex_members:
  "lex None (render_members obj @ ''}'') = Some (member_tokens obj @ [RBrace])"
proof (induction obj rule: render_members.induct)
  case 1
  show ?case by (simp add: is_ws_def)
next
  case (2 k v)
  show ?case by (simp add: lex_quote lex_value is_ws_def)
next
  case (3 k v m r)
  then show ?case by (simp add: lex_quote lex_value is_ws_def)
qed

lemma tok_value_token: "tok_value (value_token v) = Some v"
  by (cases v) auto

lemma obj_set_fresh: "k \<notin> fst ` set acc \<Longrightarrow> obj_set acc k v = acc @ [(k, v)]"
  by (induction acc) auto

lemma members_tokens:
  "obj \<noteq> [] \<Longrightarrow> wf_obj (acc @ obj) \<Longrightarrow> members (member_tokens obj @ [RBrace]) acc = Some (acc @ obj)"
proof (induction obj arbitrary: acc rule: member_tokens.induct)
  case 1
  then show ?case by simp
next
  case (2 k v)
  then show ?case by (auto simp: tok_value_token wf_obj_def obj_set_fresh)
next
  case (3 k v m r)
  have fresh: "obj_set acc k v = acc @ [(k, v)]"
    using "3.prems" by (intro obj_set_fresh) (auto simp: wf_obj_def)
  have nn: "\<not> is_numeral_key k" using "3.prems" by (simp add: wf_obj_def)
  have "members (member_tokens (m # r) @ [RBrace]) (acc @ [(k, v)]) = Some ((acc @ [(k, v)]) @ m # r)"
    using "3.prems" by (intro "3.IH") simp_all
  then show ?case by (simp add: tok_value_token fresh nn)
qed

lemma member_tokens_not_close: "obj \<noteq> [] \<Longrightarrow> member_tokens obj @ [RBrace] \<noteq> [RBrace]"
  by (cases obj rule: member_tokens.cases) auto

lemma parse_stringify: "wf_obj obj \<Longrightarrow> json_parse (json_stringify obj) = Some obj"
proof (cases "obj = []")
  case True
  then show ?thesis by (simp add: json_parse_def json_stringify_def is_ws_def)
next
  case False
  assume wf: "wf_obj obj"
  have "lex None (json_stringify obj) = Some (LBrace # member_tokens obj @ [RBrace])"
    by (simp add: json_stringify_def is_ws_def lex_members)
  moreover have "members (member_tokens obj @ [RBrace]) [] = Some obj"
    using members_tokens [of obj "[]"] False wf by simp
  ultimately show ?thesis
    using member_tokens_not_close [OF False] by (simp add: json_parse_def)
qed

lemma keys_obj_set: "fst ` set (obj_set obj k v) = insert k (fst ` set obj)"
  by (induction obj) force+

lemma distinct_obj_set: "distinct (map fst obj) \<Longrightarrow> distinct (map fst (obj_set obj k v))"
  by (induction obj) (auto simp: keys_obj_set)

lemma wf_obj_set: "wf_obj obj \<Longrightarrow> \<not> is_numeral_key k \<Longrightarrow> wf_obj (obj_set obj k v)"
proof -
  assume wf: "wf_obj obj" and nn: "\<not> is_numeral_key k"
  have "\<forall>x\<in>fst ` set (obj_set obj k v). \<not> is_numeral_key x"
    using wf nn by (auto simp: keys_obj_set wf_obj_def list_all_iff)
  then show ?thesis
    using wf by (simp add: wf_obj_def distinct_obj_set list_all_iff)
qed

lemma members_wf: "members toks acc = Some obj \<Longrightarrow> wf_obj acc \<Longrightarrow> wf_obj obj"
proof (induction toks acc arbitrary: obj rule: members.induct)
  case (1 k v sep rest acc)
  then show ?case
    by (auto simp: wf_obj_set split: option.splits if_splits)
qed simp_all

lemma json_parse_wf: "json_parse text = Some obj \<Longrightarrow> wf_obj obj"
  by (auto simp: json_parse_def wf_obj_def split: option.splits list.splits token.splits if_splits
      dest: members_wf)

lemma map_of_obj_set: "map_of (obj_set obj k v) = (map_of obj)(k \<mapsto> v)"
  by (induction obj) auto

section \<open>What each step does to the state\<close>

lemma emit_fields [simp]:
  "fs (emit ev s) = fs s"
  "projectName (emit ev s) = projectName s"
  "projectConfig (emit ev s) = projectConfig s"
  "availableCommands (emit ev s) = availableCommands s"
  "trace (emit ev s) = trace s @ [ev]"
  by (simp_all add: emit_def)

lemma writeFileSync_fields [simp]:
  "fs (writeFileSync p c s) = (fs s)(p \<mapsto> c)"
  "projectName (writeFileSync p c s) = projectName s"
  "projectConfig (writeFileSync p c s) = projectConfig s"
  "availableCommands (writeFileSync p c s) = availableCommands s"
  "trace (writeFileSync p c s) = trace s @ [WriteFile p c]"
  by (simp_all add: writeFileSync_def)

lemma paths_of_steps [simp]:
  "mevn_json (emit ev s) = mevn_json s"
  "nuxt_config (emit ev s) = nuxt_config s"
  "mevn_json (writeFileSync p c s) = mevn_json s"
  "nuxt_config (writeFileSync p c s) = nuxt_config s"
  by (simp_all add: mevn_json_def nuxt_config_def)

lemma same_name_same_paths:
  "projectName s' = projectName s \<Longrightarrow> mevn_json s' = mevn_json s"
  "projectName s' = projectName s \<Longrightarrow> nuxt_config s' = nuxt_config s"
  by (simp_all add: mevn_json_def nuxt_config_def)

lemma paths_differ [simp]: "mevn_json s \<noteq> nuxt_config s" "nuxt_config s \<noteq> mevn_json s"
  by (simp_all add: mevn_json_def nuxt_config_def)

lemma strip_prefix_append: "strip_prefix p (p @ r) = Some r"
  by (induction p) simp_all

lemma install_under:
  "install dir files old (''./'' @ dir @ ''/'' @ rel) =
     (case files rel of None \<Rightarrow> old (''./'' @ dir @ ''/'' @ rel) | Some content \<Rightarrow> Some content)"
  using strip_prefix_append [of "''./'' @ dir @ ''/''" rel] by (auto simp: install_def split: option.splits)

lemma makeInitialCommit_frame [simp]:
  "fs (snd (makeInitialCommit e s)) = fs s"
  "projectName (snd (makeInitialCommit e s)) = projectName s"
  by (simp_all add: makeInitialCommit_def Let_def split: option.splits)

lemma makeInitialCommit_trace:
  "\<exists>rest. trace (snd (makeInitialCommit e s))
            = trace s @ Chdir (projectName s) # Exec ''git'' [Some ''init''] # rest
          \<and> list_all (\<lambda>ev. \<exists>a r. ev = Exec ''git'' (Some a # r) \<and> (a = ''add'' \<or> a = ''commit'')) rest"
  by (simp add: makeInitialCommit_def Let_def split: option.splits)

lemma showCommandsList_frame [simp]:
  "fs (snd (showCommandsList e s)) = fs s"
  "projectName (snd (showCommandsList e s)) = projectName s"
  by (simp_all add: showCommandsList_def Let_def split: option.splits)

lemma showCommandsList_failed:
  "shellSync e (remove_command e (projectName s)) = Some err \<Longrightarrow>
     trace (snd (showCommandsList e s)) =
       trace s @ [Log [], Log '' Available commands:-'',
                  PrintTable (availableCommands s @ command_rows), Log [], Log [],
                  Log ('' Make sure that you've done cd '' @ projectName s), Log [],
                  Log '' Warning:  Do not delete the mevn.json file'',
                  ShellSync (remove_command e (projectName s))]"
  by (simp add: showCommandsList_def Let_def)

lemma showCommandsList_removed:
  "shellSync e (remove_command e (projectName s)) = None \<Longrightarrow>
     \<exists>rest. trace (snd (showCommandsList e s)) =
       trace s @ [Log [], Log '' Available commands:-'',
                  PrintTable (availableCommands s @ command_rows), Log [], Log [],
                  Log ('' Make sure that you've done cd '' @ projectName s), Log [],
                  Log '' Warning:  Do not delete the mevn.json file'',
                  ShellSync (remove_command e (projectName s)),
                  Chdir (projectName s), Exec ''git'' [Some ''init'']] @ rest
       \<and> list_all (\<lambda>ev. \<exists>a r. ev = Exec ''git'' (Some a # r) \<and> (a = ''add'' \<or> a = ''commit'')) rest"
proof -
  assume ok: "shellSync e (remove_command e (projectName s)) = None"
  define s6 where "s6 = emit (ShellSync (remove_command e (projectName s)))
    (emit (Log '' Warning:  Do not delete the mevn.json file'') (emit (Log [])
      (emit (Log ('' Make sure that you've done cd '' @ projectName s)) (emit (Log []) (emit (Log [])
        (emit (PrintTable (availableCommands s @ command_rows))
          ((emit (Log '' Available commands:-'') (emit (Log []) s))
            \<lparr>availableCommands := availableCommands s @ command_rows\<rparr>)))))))"
  have run: "showCommandsList e s = (Inr (), snd (makeInitialCommit e s6))"
    using ok by (simp add: showCommandsList_def Let_def s6_def)
  have name: "projectName s6 = projectName s" by (simp add: s6_def)
  have tr: "trace s6 = trace s @ [Log [], Log '' Available commands:-'',
                  PrintTable (availableCommands s @ command_rows), Log [], Log [],
                  Log ('' Make sure that you've done cd '' @ projectName s), Log [],
                  Log '' Warning:  Do not delete the mevn.json file'',
                  ShellSync (remove_command e (projectName s))]"
    by (simp add: s6_def)
  from makeInitialCommit_trace [of e s6] obtain rest where
    "trace (snd (makeInitialCommit e s6))
       = trace s6 @ Chdir (projectName s6) # Exec ''git'' [Some ''init''] # rest"
    and "list_all (\<lambda>ev. \<exists>a r. ev = Exec ''git'' (Some a # r) \<and> (a = ''add'' \<or> a = ''commit'')) rest"
    by blast
  then show ?thesis
    by (intro exI [of _ rest]) (simp add: run name tr)
qed

lemma mode_followup_frame:
  "projectName (snd (mode_followup e s)) = projectName s"
  "p \<noteq> nuxt_config s \<Longrightarrow> fs (snd (mode_followup e s)) p = fs s p"
  by (simp_all add: mode_followup_def readFileSync_def Let_def split: option.splits)

lemma mode_followup_spa:
  "answer_mode e = SPA \<Longrightarrow> mode_followup e s = (Inr (), emit (Prompt ''mode'') s)"
  by (simp add: mode_followup_def Let_def)

lemma mode_followup_trace:
  "\<exists>es. trace (snd (mode_followup e s)) = trace s @ Prompt ''mode'' # es
        \<and> list_all (touches (nuxt_config s)) es"
  by (simp add: mode_followup_def readFileSync_def Let_def split: option.splits)

lemma pwa_followup_frame:
  "projectName (snd (pwa_followup e s)) = projectName s"
  "p \<noteq> mevn_json s \<Longrightarrow> fs (snd (pwa_followup e s)) p = fs s p"
  by (simp_all add: pwa_followup_def readFileSync_def Let_def split: option.splits)

lemma pwa_followup_trace:
  "\<exists>es. trace (snd (pwa_followup e s)) = trace s @ Prompt ''requirePwaSupport'' # es
        \<and> list_all (touches (mevn_json s)) es"
  by (simp add: pwa_followup_def readFileSync_def Let_def split: option.splits)

lemma pwa_followup_declined:
  "\<not> answer_requirePwaSupport e \<Longrightarrow>
     pwa_followup e s = (Inr (), emit (Prompt ''requirePwaSupport'') s)"
  by (simp add: pwa_followup_def Let_def)

lemma pwa_followup_rewrites:
  "answer_requirePwaSupport e \<Longrightarrow> fs s (mevn_json s) = Some text \<Longrightarrow>
   json_parse text = Some obj \<Longrightarrow>
     pwa_followup e s =
       (Inr (), writeFileSync (mevn_json s) (json_stringify (obj_set obj ''isPwa'' (JBool True)))
                  (emit (ReadFile (mevn_json s)) (emit (Prompt ''requirePwaSupport'') s)))"
  by (simp add: pwa_followup_def readFileSync_def Let_def)

lemma pwa_followup_unparsed:
  "answer_requirePwaSupport e \<Longrightarrow> fs s (mevn_json s) = Some text \<Longrightarrow>
   json_parse text = None \<Longrightarrow>
     pwa_followup e s =
       (Inl SyntaxError, emit (ReadFile (mevn_json s)) (emit (Prompt ''requirePwaSupport'') s))"
  by (simp add: pwa_followup_def readFileSync_def Let_def)

section \<open>The paths through fetchTemplate and initializeProject\<close>

lemma cloned_fields [simp]:
  "projectName (cloned e t s) = projectName s"
  "projectConfig (cloned e t s) = projectConfig s"
  "availableCommands (cloned e t s) = availableCommands s"
  "mevn_json (cloned e t s) = mevn_json s"
  "nuxt_config (cloned e t s) = nuxt_config s"
  "fs (cloned e t s) =
     (install (projectName s) (checkout e (boilerplate t)) (fs s))
       (mevn_json s \<mapsto> join_lines (projectConfig s))"
  "trace (cloned e t s) =
     trace s @ [Probe ''git help -g'', SpinnerStart ''Fetching the boilerplate template'',
                Exec ''git'' [Some ''clone'', boilerplate t, Some (projectName s)],
                SpinnerStop, WriteFile (mevn_json s) (join_lines (projectConfig s))]"
  by (simp_all add: cloned_def mevn_json_def nuxt_config_def)

lemma prompted_fields [simp]:
  "projectName (prompted e n s) = n"
  "projectConfig (prompted e n s) = config_lines n (choice_label (answer_template e))"
  "availableCommands (prompted e n s) = availableCommands s"
  "fs (prompted e n s) = fs s"
  "trace (prompted e n s) =
     trace s @ [Banner ''Mevn CLI'' ''Light speed setup for MEVN stack based apps.'',
                ExistsSync n, Prompt ''template'']"
  by (simp_all add: prompted_def)

lemma fetchTemplate_absent:
  "\<not> installed e ''git help -g'' \<Longrightarrow>
     fetchTemplate e t s = (Inl (EnvironmentError ''git help -g''), emit (Probe ''git help -g'') s)"
  by (simp add: fetchTemplate_def validateInstallation_def)

lemma fetchTemplate_clone_failed:
  "installed e ''git help -g'' \<Longrightarrow>
   execa e ''git'' [Some ''clone'', boilerplate t, Some (projectName s)] = Some err \<Longrightarrow>
     fetchTemplate e t s =
       (Inl (Thrown err),
        emit (SpinnerFail ''Something went wrong'')
          (emit (Exec ''git'' [Some ''clone'', boilerplate t, Some (projectName s)])
             (emit (SpinnerStart ''Fetching the boilerplate template'')
                (emit (Probe ''git help -g'') s))))"
  by (simp add: fetchTemplate_def validateInstallation_def Let_def)

lemma fetchTemplate_cloned:
  "clone_succeeds e t (projectName s) \<Longrightarrow>
     fetchTemplate e t s =
       (if t = ''nuxt'' then
          (case pwa_followup e (cloned e t s) of
             (Inl err, s7) \<Rightarrow> (Inl err, s7)
           | (Inr u, s7) \<Rightarrow>
               (case mode_followup e s7 of
                  (Inl err, s8) \<Rightarrow> (Inl err, s8)
                | (Inr u, s8) \<Rightarrow> showCommandsList e s8))
        else showCommandsList e (cloned e t s))"
  by (simp add: fetchTemplate_def validateInstallation_def clone_succeeds_def Let_def cloned_def
      mevn_json_def)

lemma initializeProject_passes:
  "passes_validation e n \<Longrightarrow>
     initializeProject e n s =
       fetchTemplate e (canonical_key (choice_label (answer_template e))) (prompted e n s)"
  by (simp add: initializeProject_def passes_validation_def Let_def prompted_def)

text \<open>After the first write, no step changes the name, and only the two follow-ups write.\<close>

lemma after_clone_frame:
  assumes "clone_succeeds e t (projectName s)"
  shows "projectName (snd (fetchTemplate e t s)) = projectName s"
    and "p \<noteq> mevn_json s \<Longrightarrow> p \<noteq> nuxt_config s \<Longrightarrow>
           fs (snd (fetchTemplate e t s)) p = fs (cloned e t s) p"
    and "fs (snd (fetchTemplate e t s)) (mevn_json s)
           = (if t = ''nuxt'' then fs (snd (pwa_followup e (cloned e t s))) (mevn_json s)
              else fs (cloned e t s) (mevn_json s))"
proof -
  obtain r7 s7 where p: "pwa_followup e (cloned e t s) = (r7, s7)"
    by (cases "pwa_followup e (cloned e t s)")
  obtain r8 s8 where m: "mode_followup e s7 = (r8, s8)"
    by (cases "mode_followup e s7")
  have n7: "projectName s7 = projectName s"
    using pwa_followup_frame(1) [of e "cloned e t s"] p by simp
  have n8: "projectName s8 = projectName s"
    using mode_followup_frame(1) [of e s7] m n7 by simp
  have f7: "\<And>q. q \<noteq> mevn_json s \<Longrightarrow> fs s7 q = fs (cloned e t s) q"
    using pwa_followup_frame(2) [of _ "cloned e t s" e] p by simp
  have f8: "\<And>q. q \<noteq> nuxt_config s \<Longrightarrow> fs s8 q = fs s7 q"
    using mode_followup_frame(2) [of _ s7 e] m same_name_same_paths(2) [OF n7] by simp
  show "projectName (snd (fetchTemplate e t s)) = projectName s"
  proof (cases "t = ''nuxt''")
    case True
    with assms p m n7 n8 show ?thesis
      by (simp add: fetchTemplate_cloned split: sum.splits)
  next
    case False
    with assms show ?thesis by (simp add: fetchTemplate_cloned)
  qed
  show "fs (snd (fetchTemplate e t s)) p = fs (cloned e t s) p"
    if "p \<noteq> mevn_json s" "p \<noteq> nuxt_config s"
  proof (cases "t = ''nuxt''")
    case True
    with assms p m f7 [OF that(1)] f8 [OF that(2)] that show ?thesis
      by (simp add: fetchTemplate_cloned split: sum.splits)
  next
    case False
    with assms show ?thesis by (simp add: fetchTemplate_cloned)
  qed
  show "fs (snd (fetchTemplate e t s)) (mevn_json s)
           = (if t = ''nuxt'' then fs (snd (pwa_followup e (cloned e t s))) (mevn_json s)
              else fs (cloned e t s) (mevn_json s))"
  proof (cases "t = ''nuxt''")
    case True
    with assms p m f8 [of "mevn_json s"] show ?thesis
      by (simp add: fetchTemplate_cloned split: sum.splits)
  next
    case False
    with assms show ?thesis by (simp add: fetchTemplate_cloned)
  qed
qed

section \<open>The configuration file that is written\<close>

lemma final_mevn_json:
  assumes pass: "passes_validation e n"
    and clone: "clone_succeeds e (canonical_key (choice_label (answer_template e))) n"
    and plain: "json_plain n"
  shows "fs (snd (initializeProject e n s)) (''./'' @ n @ ''/mevn.json'') =
           Some (if answer_template e = Choice_Nuxt_js \<and> answer_requirePwaSupport e
                 then json_stringify [(''name'', JStr n), (''template'', JStr ''Nuxt-js''),
                                      (''isPwa'', JBool True)]
                 else join_lines (config_lines n (choice_label (answer_template e))))"
    and "projectName (snd (initializeProject e n s)) = n"
proof -
  define l where "l = choice_label (answer_template e)"
  define t where "t = canonical_key l"
  define s0 where "s0 = prompted e n s"
  have name0: "projectName s0 = n" and conf0: "projectConfig s0 = config_lines n l"
    by (simp_all add: s0_def l_def)
  have path: "mevn_json s0 = ''./'' @ n @ ''/mevn.json''"
    by (simp add: mevn_json_def name0)
  have run: "initializeProject e n s = fetchTemplate e t s0"
    using pass by (simp add: initializeProject_passes t_def l_def s0_def)
  have cl: "clone_succeeds e t (projectName s0)"
    using clone by (simp add: t_def l_def name0)
  have first: "fs (cloned e t s0) (mevn_json s0) = Some (join_lines (config_lines n l))"
    by (simp add: conf0)
  have parsed: "json_parse (join_lines (config_lines n l))
                  = Some [(''name'', JStr n), (''template'', JStr l)]"
    using plain plain_labels by (simp add: parse_config l_def)
  have nuxt: "t = ''nuxt'' \<longleftrightarrow> answer_template e = Choice_Nuxt_js"
    by (cases "answer_template e") (simp_all add: t_def l_def canonical_key_def)
  show "projectName (snd (initializeProject e n s)) = n"
    using after_clone_frame(1) [OF cl] by (simp add: run name0)
  show "fs (snd (initializeProject e n s)) (''./'' @ n @ ''/mevn.json'') =
           Some (if answer_template e = Choice_Nuxt_js \<and> answer_requirePwaSupport e
                 then json_stringify [(''name'', JStr n), (''template'', JStr ''Nuxt-js''),
                                      (''isPwa'', JBool True)]
                 else join_lines (config_lines n (choice_label (answer_template e))))"
  proof (cases "answer_template e = Choice_Nuxt_js \<and> answer_requirePwaSupport e")
    case True
    then have lab: "l = ''Nuxt-js''" by (simp add: l_def)
    have "pwa_followup e (cloned e t s0) =
            (Inr (), writeFileSync (mevn_json (cloned e t s0))
               (json_stringify (obj_set [(''name'', JStr n), (''template'', JStr l)] ''isPwa'' (JBool True)))
               (emit (ReadFile (mevn_json (cloned e t s0)))
                  (emit (Prompt ''requirePwaSupport'') (cloned e t s0))))"
      using True first parsed by (intro pwa_followup_rewrites) simp_all
    then have "fs (snd (pwa_followup e (cloned e t s0))) (mevn_json s0)
                 = Some (json_stringify [(''name'', JStr n), (''template'', JStr ''Nuxt-js''),
                                         (''isPwa'', JBool True)])"
      by (simp add: lab)
    with after_clone_frame(3) [OF cl] True nuxt show ?thesis
      by (simp add: run path)
  next
    case False
    have same: "fs (snd (pwa_followup e (cloned e t s0))) (mevn_json s0)
                  = fs (cloned e t s0) (mevn_json s0)" if "t = ''nuxt''"
    proof -
      from that nuxt False have "\<not> answer_requirePwaSupport e" by simp
      then show ?thesis by (simp add: pwa_followup_declined)
    qed
    have "fs (snd (fetchTemplate e t s0)) (mevn_json s0) = fs (cloned e t s0) (mevn_json s0)"
      using after_clone_frame(3) [OF cl] same by (cases "t = ''nuxt''") simp_all
    with first False show ?thesis
      by (auto simp: run path l_def)
  qed
qed

text \<open>
  C2. When the user chooses \<^verbatim>\<open>basic\<close> and the name passes the validations, the
  \<^verbatim>\<open>mevn.json\<close> at the project root is the text of the four configuration lines, which
  is the JSON object with the two members \<^verbatim>\<open>name\<close> (the project name) and
  \<^verbatim>\<open>template\<close> (\<^verbatim>\<open>basic\<close>) and nothing else; it has no \<^verbatim>\<open>isPwa\<close> member.
\<close>

theorem basic_template_config:
  assumes "passes_validation e n" and "answer_template e = Choice_basic"
    and "clone_succeeds e ''basic'' n" and "json_plain n"
  shows "fs (snd (initializeProject e n s)) (''./'' @ n @ ''/mevn.json'')
           = Some (join_lines (config_lines n ''basic''))
         \<and> json_parse (join_lines (config_lines n ''basic''))
           = Some [(''name'', JStr n), (''template'', JStr ''basic'')]
         \<and> mevn_member ''isPwa'' (snd (initializeProject e n s)) = None"
proof -
  have clone: "clone_succeeds e (canonical_key (choice_label (answer_template e))) n"
    using assms(2,3) by (simp add: canonical_key_def)
  have written: "fs (snd (initializeProject e n s)) (''./'' @ n @ ''/mevn.json'')
                = Some (join_lines (config_lines n ''basic''))"
    using final_mevn_json(1) [OF assms(1) clone assms(4), of s] assms(2) by simp
  have name: "projectName (snd (initializeProject e n s)) = n"
    by (rule final_mevn_json(2) [OF assms(1) clone assms(4)])
  have parsed: "json_parse (join_lines (config_lines n ''basic''))
                  = Some [(''name'', JStr n), (''template'', JStr ''basic'')]"
    using assms(4) plain_labels [of Choice_basic] by (simp add: parse_config)
  have "mevn_member ''isPwa'' (snd (initializeProject e n s)) = None"
    using written parsed by (simp add: mevn_member_def mevn_json_def name)
  with written parsed show ?thesis by simp
qed

lemma sample_passes:
  "passes_validation (sample_env sample_args c pwa m cfg) ''my-app''"
  by (simp add: passes_validation_def sample_env_def sample_args_def
      hasMultipleProjectNameArgs_def argv_at_def)

lemma sample_clones: "clone_succeeds (sample_env args c pwa m cfg) t dir"
  by (simp add: clone_succeeds_def sample_env_def)

lemma sample_plain: "json_plain ''my-app''"
  by (simp add: json_plain_def is_control_def)

theorem basic_template_config_witness:
  "fs (snd (initializeProject (sample_env sample_args Choice_basic False SPA config_with_mode)
              ''my-app'' (init_state Map.empty))) ''./my-app/mevn.json''
     = Some (join_lines (config_lines ''my-app'' ''basic''))
   \<and> json_parse (join_lines (config_lines ''my-app'' ''basic''))
     = Some [(''name'', JStr ''my-app''), (''template'', JStr ''basic'')]
   \<and> mevn_member ''isPwa''
       (snd (initializeProject (sample_env sample_args Choice_basic False SPA config_with_mode)
               ''my-app'' (init_state Map.empty))) = None"
proof -
  have c: "answer_template (sample_env sample_args Choice_basic False SPA config_with_mode) = Choice_basic"
    by (simp add: sample_env_def)
  show ?thesis
    using basic_template_config [OF sample_passes c sample_clones sample_plain,
        of "init_state Map.empty"]
    by simp
qed

text \<open>
  C1, as the code has it. For every template choice, the value written under the
  \<^verbatim>\<open>template\<close> key of \<^verbatim>\<open>mevn.json\<close> is the label chosen at the prompt. For
  \<^verbatim>\<open>basic\<close>, \<^verbatim>\<open>pwa\<close> and \<^verbatim>\<open>graphql\<close> the label is the canonical key; for
  \<^verbatim>\<open>Nuxt-js\<close> the value written is \<^verbatim>\<open>Nuxt-js\<close>: the configuration lines are built
  (line 215) before the label is remapped (line 222), and the remapped key only selects
  the repository and the follow-up questions.
\<close>

theorem persisted_template_is_label:
  assumes "passes_validation e n"
    and "clone_succeeds e (canonical_key (choice_label (answer_template e))) n"
    and "json_plain n"
  shows "mevn_member ''template'' (snd (initializeProject e n s))
           = Some (JStr (choice_label (answer_template e)))"
proof -
  have name: "mevn_json (snd (initializeProject e n s)) = ''./'' @ n @ ''/mevn.json''"
    using final_mevn_json(2) [OF assms, of s] by (simp add: mevn_json_def)
  show ?thesis
  proof (cases "answer_template e = Choice_Nuxt_js \<and> answer_requirePwaSupport e")
    case True
    have "wf_obj [(''name'', JStr n), (''template'', JStr ''Nuxt-js''), (''isPwa'', JBool True)]"
      by (simp add: wf_obj_def not_numeral_name)
    then have "json_parse (json_stringify [(''name'', JStr n), (''template'', JStr ''Nuxt-js''),
                                           (''isPwa'', JBool True)])
                 = Some [(''name'', JStr n), (''template'', JStr ''Nuxt-js''), (''isPwa'', JBool True)]"
      by (rule parse_stringify)
    with final_mevn_json(1) [OF assms, of s] True show ?thesis
      by (simp add: mevn_member_def name)
  next
    case False
    have "json_parse (join_lines (config_lines n (choice_label (answer_template e))))
            = Some [(''name'', JStr n), (''template'', JStr (choice_label (answer_template e)))]"
      using assms(3) plain_labels by (simp add: parse_config)
    with final_mevn_json(1) [OF assms, of s] False show ?thesis
      by (auto simp: mevn_member_def name)
  qed
qed

theorem persisted_template_is_label_witness:
  "mevn_member ''template''
     (snd (initializeProject (sample_env sample_args Choice_graphql False SPA config_with_mode)
             ''my-app'' (init_state Map.empty)))
     = Some (JStr ''graphql'')"
  using persisted_template_is_label [OF sample_passes sample_clones sample_plain,
      of Choice_graphql False SPA config_with_mode "init_state Map.empty"]
  by (simp add: sample_env_def)

text \<open>
  C1, as the claim states it, fails: the user chooses \<^verbatim>\<open>Nuxt-js\<close>, whose canonical key
  is \<^verbatim>\<open>nuxt\<close>, and the value under \<^verbatim>\<open>template\<close> in \<^verbatim>\<open>mevn.json\<close> is
  \<^verbatim>\<open>Nuxt-js\<close>.
\<close>

theorem persisted_template_counterexample:
  "canonical_key (choice_label Choice_Nuxt_js) = ''nuxt''
   \<and> mevn_member ''template''
       (snd (initializeProject (sample_env sample_args Choice_Nuxt_js False SPA config_with_mode)
               ''my-app'' (init_state Map.empty)))
     = Some (JStr ''Nuxt-js'')
   \<and> mevn_member ''template''
       (snd (initializeProject (sample_env sample_args Choice_Nuxt_js False SPA config_with_mode)
               ''my-app'' (init_state Map.empty)))
     \<noteq> Some (JStr ''nuxt'')"
proof -
  have "fs (snd (initializeProject (sample_env sample_args Choice_Nuxt_js False SPA config_with_mode)
               ''my-app'' (init_state Map.empty))) ''./my-app/mevn.json''
          = Some (join_lines (config_lines ''my-app'' ''Nuxt-js''))"
    using final_mevn_json(1) [OF sample_passes sample_clones sample_plain,
        of Choice_Nuxt_js False SPA config_with_mode "init_state Map.empty"]
    by (simp add: sample_env_def)
  moreover have "projectName (snd (initializeProject
                    (sample_env sample_args Choice_Nuxt_js False SPA config_with_mode)
                    ''my-app'' (init_state Map.empty))) = ''my-app''"
    by (rule final_mevn_json(2) [OF sample_passes sample_clones sample_plain])
  moreover have "json_parse (join_lines (config_lines ''my-app'' ''Nuxt-js''))
                   = Some [(''name'', JStr ''my-app''), (''template'', JStr ''Nuxt-js'')]"
    using sample_plain plain_labels [of Choice_Nuxt_js] by (simp add: parse_config)
  ultimately show ?thesis
    by (simp add: mevn_member_def mevn_json_def canonical_key_def)
qed

section \<open>A clone that fails\<close>

text \<open>
  C3. When the client is there and the clone exits with an error, \<^verbatim>\<open>fetchTemplate\<close> ends
  with that very error; the only things it has done are the probe, the start of the
  spinner, the clone and the call that marks the spinner failed. No file is written
  (so no \<^verbatim>\<open>mevn.json\<close>), the state is otherwise as it was, and nothing follows.
\<close>

theorem failed_clone_is_reported:
  assumes "installed e ''git help -g''"
    and "execa e ''git'' [Some ''clone'', boilerplate t, Some (projectName s)] = Some err"
  shows "fetchTemplate e t (s\<lparr>trace := []\<rparr>) =
           (Inl (Thrown err),
            s\<lparr>trace := [Probe ''git help -g'', SpinnerStart ''Fetching the boilerplate template'',
                         Exec ''git'' [Some ''clone'', boilerplate t, Some (projectName s)],
                         SpinnerFail ''Something went wrong'']\<rparr>)
         \<and> fs (snd (fetchTemplate e t (s\<lparr>trace := []\<rparr>))) = fs s
         \<and> (\<forall>p content. WriteFile p content \<notin> set (trace (snd (fetchTemplate e t (s\<lparr>trace := []\<rparr>)))))"
proof -
  have "fetchTemplate e t (s\<lparr>trace := []\<rparr>) =
           (Inl (Thrown err),
            s\<lparr>trace := [Probe ''git help -g'', SpinnerStart ''Fetching the boilerplate template'',
                         Exec ''git'' [Some ''clone'', boilerplate t, Some (projectName s)],
                         SpinnerFail ''Something went wrong'']\<rparr>)"
    using assms fetchTemplate_clone_failed [of e t "s\<lparr>trace := []\<rparr>" err]
    by (simp add: emit_def)
  then show ?thesis by simp
qed

theorem failed_clone_is_reported_witness:
  "fetchTemplate (sample_env sample_args Choice_pwa False SPA config_with_mode\<lparr>execa := clone_fails\<rparr>)
     ''pwa'' (init_state Map.empty\<lparr>projectName := ''my-app'', trace := []\<rparr>) =
     (Inl (Thrown ''exit code 128''),
      init_state Map.empty
        \<lparr>projectName := ''my-app'',
         trace := [Probe ''git help -g'', SpinnerStart ''Fetching the boilerplate template'',
                   Exec ''git'' [Some ''clone'',
                                 Some ''https://github.com/madlabsinc/mevn-pwa-boilerplate.git'',
                                 Some ''my-app''],
                   SpinnerFail ''Something went wrong'']\<rparr>)"
proof -
  have i: "installed (sample_env sample_args Choice_pwa False SPA config_with_mode\<lparr>execa := clone_fails\<rparr>)
             ''git help -g''"
    by (simp add: sample_env_def)
  have x: "execa (sample_env sample_args Choice_pwa False SPA config_with_mode\<lparr>execa := clone_fails\<rparr>)
             ''git'' [Some ''clone'', boilerplate ''pwa'',
                      Some (projectName (init_state Map.empty\<lparr>projectName := ''my-app''\<rparr>))]
           = Some ''exit code 128''"
    by (simp add: clone_fails_def)
  show ?thesis
    using failed_clone_is_reported [OF i x] by (simp add: boilerplate_def)
qed

section \<open>The validations\<close>

lemma stray_condition:
  "hasMultipleProjectNameArgs e
     \<longleftrightarrow> 4 < length (argv e) \<and> argv e ! 4 \<noteq> [] \<and> \<not> startsWith (argv e ! 4) ''-''"
  by (simp add: hasMultipleProjectNameArgs_def argv_at_def)

text \<open>
  C6, as the code has it. The three validations are checked in the order stray argument,
  package name, existing directory, and each one that fails ends the workflow at once.
  A stray argument is one at position 4 that is not the empty string and does not start
  with \<^verbatim>\<open>-\<close>. On a stray argument, and on an invalid name, nothing has happened but the
  banner and the error message; on an existing directory, the existence check is the
  only access to the file system. In all three cases no file is read or written, no
  subprocess is started, and the state is otherwise as it was.
\<close>

theorem validation_aborts_before_io:
  "(4 < length (argv e) \<and> argv e ! 4 \<noteq> [] \<and> \<not> startsWith (argv e ! 4) ''-'' \<longrightarrow>
      initializeProject e n (s\<lparr>trace := []\<rparr>) =
        (Inl StrayArgumentsError,
         s\<lparr>trace := [Banner ''Mevn CLI'' ''Light speed setup for MEVN stack based apps.'',
                      ErrorMessage StrayArgumentsError]\<rparr>))
   \<and> (\<not> hasMultipleProjectNameArgs e \<and> \<not> validForNewPackages e n \<longrightarrow>
      initializeProject e n (s\<lparr>trace := []\<rparr>) =
        (Inl (InvalidNameError n),
         s\<lparr>trace := [Banner ''Mevn CLI'' ''Light speed setup for MEVN stack based apps.'',
                      ErrorMessage (InvalidNameError n)]\<rparr>))
   \<and> (\<not> hasMultipleProjectNameArgs e \<and> validForNewPackages e n \<and> existsSync e n \<longrightarrow>
      initializeProject e n (s\<lparr>trace := []\<rparr>) =
        (Inl (DirectoryExistsError n),
         s\<lparr>trace := [Banner ''Mevn CLI'' ''Light speed setup for MEVN stack based apps.'',
                      ExistsSync n, ErrorMessage (DirectoryExistsError n)]\<rparr>))"
proof (intro conjI impI)
  assume "4 < length (argv e) \<and> argv e ! 4 \<noteq> [] \<and> \<not> startsWith (argv e ! 4) ''-''"
  then have "hasMultipleProjectNameArgs e" by (simp add: stray_condition)
  then show "initializeProject e n (s\<lparr>trace := []\<rparr>) =
        (Inl StrayArgumentsError,
         s\<lparr>trace := [Banner ''Mevn CLI'' ''Light speed setup for MEVN stack based apps.'',
                      ErrorMessage StrayArgumentsError]\<rparr>)"
    by (simp add: initializeProject_def hasStrayArgs_def emit_def)
next
  assume "\<not> hasMultipleProjectNameArgs e \<and> \<not> validForNewPackages e n"
  then show "initializeProject e n (s\<lparr>trace := []\<rparr>) =
        (Inl (InvalidNameError n),
         s\<lparr>trace := [Banner ''Mevn CLI'' ''Light speed setup for MEVN stack based apps.'',
                      ErrorMessage (InvalidNameError n)]\<rparr>)"
    by (simp add: initializeProject_def invalidProjectName_def emit_def)
next
  assume "\<not> hasMultipleProjectNameArgs e \<and> validForNewPackages e n \<and> existsSync e n"
  then show "initializeProject e n (s\<lparr>trace := []\<rparr>) =
        (Inl (DirectoryExistsError n),
         s\<lparr>trace := [Banner ''Mevn CLI'' ''Light speed setup for MEVN stack based apps.'',
                      ExistsSync n, ErrorMessage (DirectoryExistsError n)]\<rparr>)"
    by (simp add: initializeProject_def directoryExistsInPath_def emit_def Let_def)
qed

lemma sample_fields:
  "argv (sample_env args c pwa m cfg) = args"
  "validForNewPackages (sample_env args c pwa m cfg) n \<longleftrightarrow> n = ''my-app'' \<or> n = ''taken''"
  "existsSync (sample_env args c pwa m cfg) p \<longleftrightarrow> p = ''taken''"
  "answer_template (sample_env args c pwa m cfg) = c"
  "answer_requirePwaSupport (sample_env args c pwa m cfg) = pwa"
  "answer_mode (sample_env args c pwa m cfg) = m"
  "installed (sample_env args c pwa m cfg) cmd"
  "execa (sample_env args c pwa m cfg) cmd a = None"
  "shellSync (sample_env args c pwa m cfg) cmd = None"
  "checkout (sample_env args c pwa m cfg) url = [''nuxt.config.js'' \<mapsto> cfg]"
  by (simp_all add: sample_env_def)

theorem validation_aborts_before_io_witness:
  "initializeProject (sample_env (sample_args @ [''other'']) Choice_basic False SPA config_with_mode)
     ''taken'' (init_state Map.empty\<lparr>trace := []\<rparr>) =
     (Inl StrayArgumentsError,
      init_state Map.empty
        \<lparr>trace := [Banner ''Mevn CLI'' ''Light speed setup for MEVN stack based apps.'',
                   ErrorMessage StrayArgumentsError]\<rparr>)
   \<and> initializeProject (sample_env sample_args Choice_basic False SPA config_with_mode)
     ''My App'' (init_state Map.empty\<lparr>trace := []\<rparr>) =
     (Inl (InvalidNameError ''My App''),
      init_state Map.empty
        \<lparr>trace := [Banner ''Mevn CLI'' ''Light speed setup for MEVN stack based apps.'',
                   ErrorMessage (InvalidNameError ''My App'')]\<rparr>)
   \<and> initializeProject (sample_env sample_args Choice_basic False SPA config_with_mode)
     ''taken'' (init_state Map.empty\<lparr>trace := []\<rparr>) =
     (Inl (DirectoryExistsError ''taken''),
      init_state Map.empty
        \<lparr>trace := [Banner ''Mevn CLI'' ''Light speed setup for MEVN stack based apps.'',
                   ExistsSync ''taken'', ErrorMessage (DirectoryExistsError ''taken'')]\<rparr>)"
  using
    validation_aborts_before_io
      [of "sample_env (sample_args @ [''other'']) Choice_basic False SPA config_with_mode"
          "''taken''" "init_state Map.empty"]
    validation_aborts_before_io
      [of "sample_env sample_args Choice_basic False SPA config_with_mode"
          "''My App''" "init_state Map.empty"]
    validation_aborts_before_io
      [of "sample_env sample_args Choice_basic False SPA config_with_mode"
          "''taken''" "init_state Map.empty"]
  by (simp add: sample_fields sample_args_def stray_condition)

section \<open>The order of the events\<close>

lemma makeInitialCommit_extends:
  "\<exists>es. trace (snd (makeInitialCommit e s)) = trace s @ es"
  by (simp add: makeInitialCommit_def Let_def split: option.splits)

lemma showCommandsList_extends:
  "\<exists>es. trace (snd (showCommandsList e s)) = trace s @ es"
proof (cases "shellSync e (remove_command e (projectName s))")
  case (Some err)
  then show ?thesis by (simp add: showCommandsList_failed)
next
  case None
  define s6 where "s6 = emit (ShellSync (remove_command e (projectName s)))
    (emit (Log '' Warning:  Do not delete the mevn.json file'') (emit (Log [])
      (emit (Log ('' Make sure that you've done cd '' @ projectName s)) (emit (Log []) (emit (Log [])
        (emit (PrintTable (availableCommands s @ command_rows))
          ((emit (Log '' Available commands:-'') (emit (Log []) s))
            \<lparr>availableCommands := availableCommands s @ command_rows\<rparr>)))))))"
  have run: "showCommandsList e s = (Inr (), snd (makeInitialCommit e s6))"
    using None by (simp add: showCommandsList_def Let_def s6_def)
  obtain es6 where t6: "trace s6 = trace s @ es6" by (simp add: s6_def)
  obtain es where "trace (snd (makeInitialCommit e s6)) = trace s6 @ es"
    using makeInitialCommit_extends [of e s6] by (elim exE)
  with t6 show ?thesis by (simp add: run)
qed

lemma showCommandsList_result:
  "fst (showCommandsList e s) =
     (case shellSync e (remove_command e (projectName s)) of
        None \<Rightarrow> Inr () | Some err \<Rightarrow> Inl (Thrown err))"
  by (simp add: showCommandsList_def Let_def split: option.splits)

lemma fetchTemplate_extends:
  assumes "clone_succeeds e t (projectName s)"
  shows "\<exists>es. trace (snd (fetchTemplate e t s)) = trace (cloned e t s) @ es"
proof (cases "t = ''nuxt''")
  case False
  with assms showCommandsList_extends [of e "cloned e t s"] show ?thesis
    by (simp add: fetchTemplate_cloned)
next
  case True
  obtain r7 s7 where p: "pwa_followup e (cloned e t s) = (r7, s7)"
    by (cases "pwa_followup e (cloned e t s)")
  obtain r8 s8 where m: "mode_followup e s7 = (r8, s8)"
    by (cases "mode_followup e s7")
  from pwa_followup_trace [of e "cloned e t s"] p
  obtain es7 where t7: "trace s7 = trace (cloned e t s) @ es7" by auto
  from mode_followup_trace [of e s7] m
  obtain es8 where t8: "trace s8 = trace s7 @ es8" by auto
  from showCommandsList_extends [of e s8]
  obtain es9 where t9: "trace (snd (showCommandsList e s8)) = trace s8 @ es9" by blast
  have run: "fetchTemplate e t s =
      (case r7 of Inl err \<Rightarrow> (Inl err, s7)
       | Inr u \<Rightarrow> (case r8 of Inl err \<Rightarrow> (Inl err, s8) | Inr u \<Rightarrow> showCommandsList e s8))"
    using assms True p m by (simp add: fetchTemplate_cloned split: sum.splits)
  show ?thesis
  proof (cases r7)
    case (Inl err)
    with run t7 show ?thesis by simp
  next
    case (Inr u)
    show ?thesis
    proof (cases r8)
      case (Inl err)
      with run Inr t7 t8 show ?thesis by simp
    next
      case (Inr u')
      with run \<open>r7 = Inr u\<close> t7 t8 t9 show ?thesis by simp
    qed
  qed
qed

lemma initializeProject_stray:
  "hasMultipleProjectNameArgs e \<Longrightarrow>
     initializeProject e n s =
       (Inl StrayArgumentsError,
        emit (ErrorMessage StrayArgumentsError)
          (emit (Banner ''Mevn CLI'' ''Light speed setup for MEVN stack based apps.'') s))"
  by (simp add: initializeProject_def hasStrayArgs_def)

lemma initializeProject_invalid:
  "\<not> hasMultipleProjectNameArgs e \<Longrightarrow> \<not> validForNewPackages e n \<Longrightarrow>
     initializeProject e n s =
       (Inl (InvalidNameError n),
        emit (ErrorMessage (InvalidNameError n))
          (emit (Banner ''Mevn CLI'' ''Light speed setup for MEVN stack based apps.'') s))"
  by (simp add: initializeProject_def invalidProjectName_def)

lemma initializeProject_exists:
  "\<not> hasMultipleProjectNameArgs e \<Longrightarrow> validForNewPackages e n \<Longrightarrow> existsSync e n \<Longrightarrow>
     initializeProject e n s =
       (Inl (DirectoryExistsError n),
        emit (ErrorMessage (DirectoryExistsError n))
          (emit (ExistsSync n)
             (emit (Banner ''Mevn CLI'' ''Light speed setup for MEVN stack based apps.'') s)))"
  by (simp add: initializeProject_def directoryExistsInPath_def Let_def)

lemma initializeProject_rejects:
  assumes "\<not> passes_validation e n"
  shows "(\<exists>err. fst (initializeProject e n s) = Inl err)
         \<and> fs (snd (initializeProject e n s)) = fs s
         \<and> (\<exists>es. trace (snd (initializeProject e n s)) = trace s @ es
                \<and> list_all (\<lambda>ev. \<not> subprocess ev) es)"
proof (cases "hasMultipleProjectNameArgs e")
  case True
  then show ?thesis by (simp add: initializeProject_stray)
next
  case stray: False
  show ?thesis
  proof (cases "validForNewPackages e n")
    case False
    with stray show ?thesis by (simp add: initializeProject_invalid)
  next
    case True
    with stray assms have "existsSync e n" by (simp add: passes_validation_def)
    with stray True show ?thesis by (simp add: initializeProject_exists)
  qed
qed

lemma initializeProject_absent:
  assumes "passes_validation e n" and "\<not> installed e ''git help -g''"
  shows "fst (initializeProject e n s) = Inl (EnvironmentError ''git help -g'')"
    and "fs (snd (initializeProject e n s)) = fs s"
    and "trace (snd (initializeProject e n s)) =
           trace s @ [Banner ''Mevn CLI'' ''Light speed setup for MEVN stack based apps.'',
                      ExistsSync n, Prompt ''template'', Probe ''git help -g'']"
  using assms by (simp_all add: initializeProject_passes fetchTemplate_absent)

lemma initializeProject_present:
  assumes "passes_validation e n" and "installed e ''git help -g''"
  shows "\<exists>es. trace (snd (initializeProject e n s)) =
           trace s @ [Banner ''Mevn CLI'' ''Light speed setup for MEVN stack based apps.'',
                      ExistsSync n, Prompt ''template'', Probe ''git help -g'',
                      SpinnerStart ''Fetching the boilerplate template''] @ es"
proof -
  define t where "t = canonical_key (choice_label (answer_template e))"
  define s0 where "s0 = prompted e n s"
  have run: "initializeProject e n s = fetchTemplate e t s0"
    using assms(1) by (simp add: initializeProject_passes t_def s0_def)
  have tr0: "trace s0 = trace s @ [Banner ''Mevn CLI'' ''Light speed setup for MEVN stack based apps.'',
                      ExistsSync n, Prompt ''template'']"
    by (simp add: s0_def)
  show ?thesis
  proof (cases "execa e ''git'' [Some ''clone'', boilerplate t, Some (projectName s0)]")
    case (Some err)
    have "trace (snd (fetchTemplate e t s0)) =
            trace s0 @ [Probe ''git help -g'', SpinnerStart ''Fetching the boilerplate template'',
                        Exec ''git'' [Some ''clone'', boilerplate t, Some (projectName s0)],
                        SpinnerFail ''Something went wrong'']"
      by (simp add: fetchTemplate_clone_failed [OF assms(2) Some])
    then show ?thesis by (simp add: run tr0)
  next
    case None
    with assms(2) have "clone_succeeds e t (projectName s0)" by (simp add: clone_succeeds_def)
    from fetchTemplate_extends [OF this]
    obtain es where "trace (snd (fetchTemplate e t s0)) = trace (cloned e t s0) @ es" by blast
    then show ?thesis by (simp add: run tr0)
  qed
qed

text \<open>
  C7. In every run of the workflow, a \<^verbatim>\<open>git clone\<close> is started only if the client is
  there, and only after the probe \<^verbatim>\<open>git help -g\<close>. When the client is missing, the
  workflow ends with an error, and it has started no subprocess and changed no file.
\<close>

theorem probe_before_clone:
  "(\<forall>i args. i < length (trace (snd (initializeProject e n (s\<lparr>trace := []\<rparr>))))
        \<and> trace (snd (initializeProject e n (s\<lparr>trace := []\<rparr>))) ! i
            = Exec ''git'' (Some ''clone'' # args)
      \<longrightarrow> installed e ''git help -g''
          \<and> (\<exists>j<i. trace (snd (initializeProject e n (s\<lparr>trace := []\<rparr>))) ! j
                      = Probe ''git help -g''))
   \<and> (\<not> installed e ''git help -g'' \<longrightarrow>
        (\<exists>err. fst (initializeProject e n (s\<lparr>trace := []\<rparr>)) = Inl err)
        \<and> fs (snd (initializeProject e n (s\<lparr>trace := []\<rparr>))) = fs s
        \<and> (\<forall>ev \<in> set (trace (snd (initializeProject e n (s\<lparr>trace := []\<rparr>)))). \<not> subprocess ev))"
proof (intro conjI allI impI)
  fix i args
  define tr where "tr = trace (snd (initializeProject e n (s\<lparr>trace := []\<rparr>)))"
  assume "i < length (trace (snd (initializeProject e n (s\<lparr>trace := []\<rparr>))))
        \<and> trace (snd (initializeProject e n (s\<lparr>trace := []\<rparr>))) ! i
            = Exec ''git'' (Some ''clone'' # args)"
  then have i: "i < length tr" and c: "tr ! i = Exec ''git'' (Some ''clone'' # args)"
    by (simp_all add: tr_def)
  have mem: "Exec ''git'' (Some ''clone'' # args) \<in> set tr"
    using nth_mem [OF i] c by simp
  have started: "passes_validation e n \<and> installed e ''git help -g''"
  proof (rule ccontr)
    assume "\<not> (passes_validation e n \<and> installed e ''git help -g'')"
    then consider "\<not> passes_validation e n"
      | "passes_validation e n" "\<not> installed e ''git help -g''" by blast
    then have "\<forall>ev\<in>set tr. \<not> subprocess ev"
    proof cases
      case 1
      from initializeProject_rejects [OF 1, of "s\<lparr>trace := []\<rparr>"] show ?thesis
        by (auto simp: tr_def list_all_iff)
    next
      case 2
      from initializeProject_absent(3) [OF 2, of "s\<lparr>trace := []\<rparr>"] show ?thesis
        by (simp add: tr_def)
    qed
    with mem show False by auto
  qed
  then obtain es where tr: "tr = [Banner ''Mevn CLI'' ''Light speed setup for MEVN stack based apps.'',
            ExistsSync n, Prompt ''template'', Probe ''git help -g'',
            SpinnerStart ''Fetching the boilerplate template''] @ es"
    using initializeProject_present [of e n "s\<lparr>trace := []\<rparr>"] by (auto simp: tr_def)
  have "5 \<le> i"
  proof (rule ccontr)
    assume "\<not> 5 \<le> i"
    then have "i = 0 \<or> i = 1 \<or> i = 2 \<or> i = 3 \<or> i = 4" by arith
    with c tr show False by auto
  qed
  moreover have "tr ! 3 = Probe ''git help -g''" using tr by simp
  ultimately have "\<exists>j<i. tr ! j = Probe ''git help -g''"
    by (intro exI [of _ 3]) simp
  with started show "installed e ''git help -g''"
    and "\<exists>j<i. trace (snd (initializeProject e n (s\<lparr>trace := []\<rparr>))) ! j = Probe ''git help -g''"
    by (simp_all add: tr_def)
next
  assume ni: "\<not> installed e ''git help -g''"
  show "\<exists>err. fst (initializeProject e n (s\<lparr>trace := []\<rparr>)) = Inl err"
    using initializeProject_rejects [of e n "s\<lparr>trace := []\<rparr>"]
      initializeProject_absent(1) [OF _ ni, of n "s\<lparr>trace := []\<rparr>"]
    by (cases "passes_validation e n") simp_all
  show "fs (snd (initializeProject e n (s\<lparr>trace := []\<rparr>))) = fs s"
    using initializeProject_rejects [of e n "s\<lparr>trace := []\<rparr>"]
      initializeProject_absent(2) [OF _ ni, of n "s\<lparr>trace := []\<rparr>"]
    by (cases "passes_validation e n") simp_all
  show "\<forall>ev \<in> set (trace (snd (initializeProject e n (s\<lparr>trace := []\<rparr>)))). \<not> subprocess ev"
    using initializeProject_rejects [of e n "s\<lparr>trace := []\<rparr>"]
      initializeProject_absent(3) [OF _ ni, of n "s\<lparr>trace := []\<rparr>"]
    by (cases "passes_validation e n") (auto simp: list_all_iff)
qed

lemma initializeProject_cloned_trace:
  assumes "passes_validation e n"
    and "clone_succeeds e (canonical_key (choice_label (answer_template e))) n"
  shows "\<exists>es. trace (snd (initializeProject e n s)) =
           trace s @ [Banner ''Mevn CLI'' ''Light speed setup for MEVN stack based apps.'',
                      ExistsSync n, Prompt ''template'', Probe ''git help -g'',
                      SpinnerStart ''Fetching the boilerplate template'',
                      Exec ''git'' [Some ''clone'',
                                    boilerplate (canonical_key (choice_label (answer_template e))),
                                    Some n],
                      SpinnerStop,
                      WriteFile (''./'' @ n @ ''/mevn.json'')
                        (join_lines (config_lines n (choice_label (answer_template e))))] @ es"
proof -
  define t where "t = canonical_key (choice_label (answer_template e))"
  define s0 where "s0 = prompted e n s"
  have run: "initializeProject e n s = fetchTemplate e t s0"
    using assms(1) by (simp add: initializeProject_passes t_def s0_def)
  have "clone_succeeds e t (projectName s0)"
    using assms(2) by (simp add: t_def s0_def)
  from fetchTemplate_extends [OF this]
  obtain es where "trace (snd (fetchTemplate e t s0)) = trace (cloned e t s0) @ es" by (elim exE)
  then show ?thesis
    by (simp add: run s0_def t_def mevn_json_def)
qed

theorem probe_before_clone_witness:
  "installed (sample_env sample_args Choice_basic False SPA config_with_mode) ''git help -g''
   \<and> (\<exists>j<5. trace (snd (initializeProject
                   (sample_env sample_args Choice_basic False SPA config_with_mode)
                   ''my-app'' (init_state Map.empty\<lparr>trace := []\<rparr>))) ! j
             = Probe ''git help -g'')"
proof -
  define tr where "tr = trace (snd (initializeProject
                   (sample_env sample_args Choice_basic False SPA config_with_mode)
                   ''my-app'' (init_state Map.empty\<lparr>trace := []\<rparr>)))"
  obtain es where
    "tr = [Banner ''Mevn CLI'' ''Light speed setup for MEVN stack based apps.'',
           ExistsSync ''my-app'', Prompt ''template'', Probe ''git help -g'',
           SpinnerStart ''Fetching the boilerplate template'',
           Exec ''git'' [Some ''clone'', boilerplate ''basic'', Some ''my-app''],
           SpinnerStop,
           WriteFile ''./my-app/mevn.json'' (join_lines (config_lines ''my-app'' ''basic''))] @ es"
    using initializeProject_cloned_trace [OF sample_passes sample_clones,
        of Choice_basic False SPA config_with_mode "init_state Map.empty\<lparr>trace := []\<rparr>"]
    by (auto simp: tr_def sample_fields canonical_key_def)
  then have "5 < length tr \<and> tr ! 5 = Exec ''git'' (Some ''clone'' # [boilerplate ''basic'', Some ''my-app''])"
    by simp
  with probe_before_clone [of "sample_env sample_args Choice_basic False SPA config_with_mode"
      "''my-app''" "init_state Map.empty"]
  show ?thesis
    unfolding tr_def by blast
qed

text \<open>
  C6, as the claim states it, fails: the argument at position 4 exists and is the empty
  string, which does not start with \<^verbatim>\<open>-\<close>; the workflow does not abort, it goes on
  to the clone and ends without an error.
\<close>

theorem empty_stray_argument_counterexample:
  "4 < length (argv (sample_env (sample_args @ [[]]) Choice_basic False SPA config_with_mode))
   \<and> \<not> startsWith
         (argv (sample_env (sample_args @ [[]]) Choice_basic False SPA config_with_mode) ! 4) ''-''
   \<and> fst (initializeProject (sample_env (sample_args @ [[]]) Choice_basic False SPA config_with_mode)
            ''my-app'' (init_state Map.empty)) = Inr ()
   \<and> trace (snd (initializeProject
                   (sample_env (sample_args @ [[]]) Choice_basic False SPA config_with_mode)
                   ''my-app'' (init_state Map.empty))) ! 5
     = Exec ''git'' [Some ''clone'', Some ''https://github.com/madlabsinc/mevn-boilerplate.git'',
                     Some ''my-app'']"
proof -
  define E where "E = sample_env (sample_args @ [[]]) Choice_basic False SPA config_with_mode"
  have pass: "passes_validation E ''my-app''"
    by (simp add: E_def passes_validation_def sample_fields sample_args_def stray_condition)
  have clone: "clone_succeeds E (canonical_key (choice_label (answer_template E))) ''my-app''"
    unfolding E_def by (rule sample_clones)
  have key: "canonical_key (choice_label (answer_template E)) = ''basic''"
    by (simp add: E_def sample_fields canonical_key_def)
  have "fst (initializeProject E ''my-app'' (init_state Map.empty)) = Inr ()"
    using clone
    by (simp add: initializeProject_passes [OF pass] key fetchTemplate_cloned
        showCommandsList_result) (simp add: E_def sample_fields)
  moreover obtain es where
    "trace (snd (initializeProject E ''my-app'' (init_state Map.empty))) =
       trace (init_state Map.empty) @
          [Banner ''Mevn CLI'' ''Light speed setup for MEVN stack based apps.'',
           ExistsSync ''my-app'', Prompt ''template'', Probe ''git help -g'',
           SpinnerStart ''Fetching the boilerplate template'',
           Exec ''git'' [Some ''clone'', boilerplate ''basic'', Some ''my-app''],
           SpinnerStop,
           WriteFile ''./my-app/mevn.json'' (join_lines (config_lines ''my-app'' ''basic''))] @ es"
    using initializeProject_cloned_trace [OF pass clone, of "init_state Map.empty"]
    by (auto simp: E_def sample_fields canonical_key_def)
  ultimately show ?thesis
    by (simp add: E_def [symmetric] init_state_def boilerplate_def)
      (simp add: E_def sample_fields sample_args_def)
qed

section \<open>The two follow-up questions of the nuxt template\<close>

lemma mode_followup_universal:
  "answer_mode e = Universal \<Longrightarrow> fs s (nuxt_config s) = Some cfg \<Longrightarrow>
     mode_followup e s =
       (Inr (),
        writeFileSync (nuxt_config s)
          (join_lines (array_set (split_lines cfg)
             (indexOf (split_lines cfg) (find (\<lambda>line. str_includes line ''mode'') (split_lines cfg)))
             universal_line))
          (emit (ReadFile (nuxt_config s)) (emit (Prompt ''mode'') s)))"
  by (simp add: mode_followup_def readFileSync_def Let_def)


text \<open>
  C9. When no line of \<^verbatim>\<open>nuxt.config.js\<close> contains \<^verbatim>\<open>mode\<close>, the search finds nothing,
  the index is \<open>-1\<close>, the assignment at \<open>-1\<close> changes no element of the array of lines, and
  the step writes the file back with the content it had: the joined lines are the text that
  was read, and no file of the state is different afterwards.
\<close>

theorem mode_patch_without_match:
  assumes "answer_mode e = Universal" and "fs s (nuxt_config s) = Some cfg"
    and "\<forall>l \<in> set (split_lines cfg). \<not> str_includes l ''mode''"
  shows "indexOf (split_lines cfg) (find (\<lambda>line. str_includes line ''mode'') (split_lines cfg)) = - 1
         \<and> array_set (split_lines cfg) (- 1) universal_line = split_lines cfg
         \<and> join_lines (array_set (split_lines cfg) (- 1) universal_line) = cfg
         \<and> fst (mode_followup e s) = Inr ()
         \<and> trace (snd (mode_followup e s)) =
             trace s @ [Prompt ''mode'', ReadFile (nuxt_config s), WriteFile (nuxt_config s) cfg]
         \<and> fs (snd (mode_followup e s)) = fs s"
proof -
  have none: "find (\<lambda>line. str_includes line ''mode'') (split_lines cfg) = None"
    using assms(3) by (simp add: find_None_iff)
  have idx: "indexOf (split_lines cfg) (find (\<lambda>line. str_includes line ''mode'') (split_lines cfg)) = - 1"
    by (simp add: none)
  have same: "array_set (split_lines cfg) (- 1) universal_line = split_lines cfg"
    by (simp add: array_set_def)
  have joined: "join_lines (array_set (split_lines cfg) (- 1) universal_line) = cfg"
    by (simp add: same join_split_lines)
  have run: "mode_followup e s =
       (Inr (), writeFileSync (nuxt_config s) cfg
                  (emit (ReadFile (nuxt_config s)) (emit (Prompt ''mode'') s)))"
    using mode_followup_universal [OF assms(1,2)] by (simp add: idx joined)
  have "(fs s)(nuxt_config s \<mapsto> cfg) = fs s"
    using assms(2) by (simp add: fun_upd_idem)
  with idx same joined run show ?thesis by simp
qed

theorem mode_patch_without_match_witness:
  "trace (snd (mode_followup (sample_env sample_args Choice_Nuxt_js False Universal config_without_mode)
                 (init_state [''./my-app/nuxt.config.js'' \<mapsto> config_without_mode]
                    \<lparr>projectName := ''my-app''\<rparr>)))
     = [Prompt ''mode'', ReadFile ''./my-app/nuxt.config.js'',
        WriteFile ''./my-app/nuxt.config.js'' config_without_mode]
   \<and> fs (snd (mode_followup (sample_env sample_args Choice_Nuxt_js False Universal config_without_mode)
                 (init_state [''./my-app/nuxt.config.js'' \<mapsto> config_without_mode]
                    \<lparr>projectName := ''my-app''\<rparr>)))
     = [''./my-app/nuxt.config.js'' \<mapsto> config_without_mode]"
proof -
  define s where "s = init_state [''./my-app/nuxt.config.js'' \<mapsto> config_without_mode]
                    \<lparr>projectName := ''my-app''\<rparr>"
  have m: "answer_mode (sample_env sample_args Choice_Nuxt_js False Universal config_without_mode)
             = Universal"
    by (simp add: sample_fields)
  have f: "fs s (nuxt_config s) = Some config_without_mode"
    by (simp add: s_def init_state_def nuxt_config_def)
  have l: "split_lines config_without_mode = [''export default {'', ''  head: {}'', ''}'']"
    by (simp add: config_without_mode_def newline_def)
  have n: "\<forall>l \<in> set (split_lines config_without_mode). \<not> str_includes l ''mode''"
    by (simp add: l)
  show ?thesis
    using mode_patch_without_match [OF m f n]
    by (simp add: s_def [symmetric]) (simp add: s_def init_state_def nuxt_config_def)
qed

text \<open>
  C10. When the user asks for PWA support and the \<^verbatim>\<open>mevn.json\<close> that is read back parses
  to an object, the file is rewritten with that object and \<^verbatim>\<open>isPwa: true\<close>: the new text
  parses to the old object with \<^verbatim>\<open>isPwa\<close> set, so \<^verbatim>\<open>name\<close>, \<^verbatim>\<open>template\<close> and every
  other key but \<^verbatim>\<open>isPwa\<close> have the value they had.
\<close>

theorem pwa_rewrite_preserves_members:
  assumes "answer_requirePwaSupport e" and "fs s (mevn_json s) = Some text"
    and "json_parse text = Some obj"
  shows "fs (snd (pwa_followup e s)) (mevn_json s)
           = Some (json_stringify (obj_set obj ''isPwa'' (JBool True)))
         \<and> json_parse (json_stringify (obj_set obj ''isPwa'' (JBool True)))
           = Some (obj_set obj ''isPwa'' (JBool True))
         \<and> mevn_member ''name'' (snd (pwa_followup e s)) = map_of obj ''name''
         \<and> mevn_member ''template'' (snd (pwa_followup e s)) = map_of obj ''template''
         \<and> mevn_member ''isPwa'' (snd (pwa_followup e s)) = Some (JBool True)
         \<and> (\<forall>k. k \<noteq> ''isPwa'' \<longrightarrow> mevn_member k (snd (pwa_followup e s)) = map_of obj k)"
proof -
  have wf: "wf_obj (obj_set obj ''isPwa'' (JBool True))"
    using json_parse_wf [OF assms(3)] by (simp add: wf_obj_set not_numeral_name)
  have reparsed: "json_parse (json_stringify (obj_set obj ''isPwa'' (JBool True)))
                = Some (obj_set obj ''isPwa'' (JBool True))"
    by (rule parse_stringify [OF wf])
  have written: "fs (snd (pwa_followup e s)) (mevn_json s)
                   = Some (json_stringify (obj_set obj ''isPwa'' (JBool True)))"
    by (simp add: pwa_followup_rewrites [OF assms])
  have path: "mevn_json (snd (pwa_followup e s)) = mevn_json s"
    by (simp add: pwa_followup_rewrites [OF assms])
  have member: "mevn_member k (snd (pwa_followup e s)) = ((map_of obj)(''isPwa'' \<mapsto> JBool True)) k" for k
    by (simp add: mevn_member_def path written reparsed map_of_obj_set)
  show ?thesis
    by (simp add: written reparsed member)
qed

theorem pwa_rewrite_preserves_members_witness:
  "mevn_member ''name''
     (snd (pwa_followup (sample_env sample_args Choice_Nuxt_js True SPA config_with_mode)
             (init_state [''./my-app/mevn.json'' \<mapsto> join_lines (config_lines ''my-app'' ''Nuxt-js'')]
                \<lparr>projectName := ''my-app''\<rparr>))) = Some (JStr ''my-app'')
   \<and> mevn_member ''template''
     (snd (pwa_followup (sample_env sample_args Choice_Nuxt_js True SPA config_with_mode)
             (init_state [''./my-app/mevn.json'' \<mapsto> join_lines (config_lines ''my-app'' ''Nuxt-js'')]
                \<lparr>projectName := ''my-app''\<rparr>))) = Some (JStr ''Nuxt-js'')
   \<and> mevn_member ''isPwa''
     (snd (pwa_followup (sample_env sample_args Choice_Nuxt_js True SPA config_with_mode)
             (init_state [''./my-app/mevn.json'' \<mapsto> join_lines (config_lines ''my-app'' ''Nuxt-js'')]
                \<lparr>projectName := ''my-app''\<rparr>))) = Some (JBool True)"
proof -
  define s where "s = init_state [''./my-app/mevn.json'' \<mapsto> join_lines (config_lines ''my-app'' ''Nuxt-js'')]
                \<lparr>projectName := ''my-app''\<rparr>"
  have a: "answer_requirePwaSupport (sample_env sample_args Choice_Nuxt_js True SPA config_with_mode)"
    by (simp add: sample_fields)
  have f: "fs s (mevn_json s) = Some (join_lines (config_lines ''my-app'' ''Nuxt-js''))"
    by (simp add: s_def init_state_def mevn_json_def)
  have p: "json_parse (join_lines (config_lines ''my-app'' ''Nuxt-js''))
             = Some [(''name'', JStr ''my-app''), (''template'', JStr ''Nuxt-js'')]"
    using sample_plain plain_labels [of Choice_Nuxt_js] by (simp add: parse_config)
  show ?thesis
    using pwa_rewrite_preserves_members [OF a f p] by (simp add: s_def [symmetric])
qed

section \<open>The runtime configuration of the nuxt template\<close>

lemma touches_one_file: "touches p ev \<Longrightarrow> q \<noteq> p \<Longrightarrow> \<not> touches q ev"
  by (cases ev) auto

lemma showCommandsList_files:
  "\<exists>es. trace (snd (showCommandsList e s)) = trace s @ es \<and> (\<forall>ev\<in>set es. \<not> touches p ev)"
proof (cases "shellSync e (remove_command e (projectName s))")
  case (Some err)
  then show ?thesis by (simp add: showCommandsList_failed)
next
  case None
  from showCommandsList_removed [OF None] obtain rest where
    tr: "trace (snd (showCommandsList e s)) =
       trace s @ [Log [], Log '' Available commands:-'',
                  PrintTable (availableCommands s @ command_rows), Log [], Log [],
                  Log ('' Make sure that you've done cd '' @ projectName s), Log [],
                  Log '' Warning:  Do not delete the mevn.json file'',
                  ShellSync (remove_command e (projectName s)),
                  Chdir (projectName s), Exec ''git'' [Some ''init'']] @ rest"
    and rest: "list_all (\<lambda>ev. \<exists>a r. ev = Exec ''git'' (Some a # r) \<and> (a = ''add'' \<or> a = ''commit'')) rest"
    by (elim exE conjE)
  have "\<forall>ev\<in>set rest. \<not> touches p ev"
    using rest by (auto simp: list_all_iff)
  then show ?thesis by (simp add: tr)
qed

lemma nuxt_label: "canonical_key ''Nuxt-js'' = ''nuxt''"
  by (simp add: canonical_key_def)

text \<open>
  C5. When the user chooses \<^verbatim>\<open>Nuxt-js\<close> and the mode SPA, \<^verbatim>\<open>nuxt.config.js\<close> is what
  the clone checked out (or what was at that path, should the repository have no such
  file), and no event of the run reads or writes it.
\<close>

theorem spa_leaves_config_untouched:
  assumes "passes_validation e n" and "answer_template e = Choice_Nuxt_js"
    and "answer_mode e = SPA" and "clone_succeeds e ''nuxt'' n"
  shows "fs (snd (initializeProject e n (s\<lparr>trace := []\<rparr>))) (''./'' @ n @ ''/nuxt.config.js'')
           = (case checkout e (boilerplate ''nuxt'') ''nuxt.config.js'' of
                None \<Rightarrow> fs s (''./'' @ n @ ''/nuxt.config.js'')
              | Some content \<Rightarrow> Some content)
         \<and> (\<forall>ev \<in> set (trace (snd (initializeProject e n (s\<lparr>trace := []\<rparr>)))).
               \<not> touches (''./'' @ n @ ''/nuxt.config.js'') ev)"
proof -
  define P where "P = ''./'' @ n @ ''/nuxt.config.js''"
  define s0 where "s0 = prompted e n (s\<lparr>trace := []\<rparr>)"
  define c0 where "c0 = cloned e ''nuxt'' s0"
  have name0: "projectName s0 = n" by (simp add: s0_def)
  have run: "initializeProject e n (s\<lparr>trace := []\<rparr>) = fetchTemplate e ''nuxt'' s0"
    using assms(1,2) by (simp add: initializeProject_passes nuxt_label s0_def)
  have cl: "clone_succeeds e ''nuxt'' (projectName s0)"
    using assms(4) by (simp add: name0)
  have P0: "nuxt_config s0 = P" "nuxt_config c0 = P" and M0: "mevn_json c0 = mevn_json s0"
    and PM: "P \<noteq> mevn_json s0"
    by (simp_all add: P_def c0_def nuxt_config_def mevn_json_def name0)
  obtain r7 s7 where p: "pwa_followup e c0 = (r7, s7)"
    by (cases "pwa_followup e c0")
  have m: "mode_followup e s7 = (Inr (), emit (Prompt ''mode'') s7)"
    by (rule mode_followup_spa [OF assms(3)])
  have final: "snd (fetchTemplate e ''nuxt'' s0) =
                 (case r7 of Inl err \<Rightarrow> s7
                  | Inr u \<Rightarrow> snd (showCommandsList e (emit (Prompt ''mode'') s7)))"
    using cl p m by (simp add: fetchTemplate_cloned c0_def split: sum.splits)
  have f7: "fs s7 P = fs c0 P"
    using pwa_followup_frame(2) [of P c0 e] p PM M0 by simp
  have fc: "fs c0 P = (case checkout e (boilerplate ''nuxt'') ''nuxt.config.js'' of
                None \<Rightarrow> fs s P | Some content \<Rightarrow> Some content)"
    using PM install_under [of n "checkout e (boilerplate ''nuxt'')" "fs s" "''nuxt.config.js''"]
    by (auto simp: c0_def name0 P_def s0_def split: option.splits)
  have files: "fs (snd (fetchTemplate e ''nuxt'' s0)) P = fs s7 P"
    by (cases r7) (simp_all add: final)
  from pwa_followup_trace [of e c0] p obtain es7 where
    t7: "trace s7 = trace c0 @ Prompt ''requirePwaSupport'' # es7"
    and e7: "list_all (touches (mevn_json c0)) es7"
    by auto
  have q7: "\<forall>ev\<in>set (trace s7). \<not> touches P ev"
  proof -
    have "\<forall>ev\<in>set es7. \<not> touches P ev"
      using e7 PM M0 by (auto simp: list_all_iff dest: touches_one_file)
    moreover have "\<forall>ev\<in>set (trace c0). \<not> touches P ev"
      using PM by (simp add: c0_def s0_def)
    ultimately show ?thesis by (auto simp: t7)
  qed
  have quiet: "\<forall>ev\<in>set (trace (snd (fetchTemplate e ''nuxt'' s0))). \<not> touches P ev"
  proof (cases r7)
    case (Inl err)
    with q7 show ?thesis by (simp add: final)
  next
    case (Inr u)
    from showCommandsList_files [of e "emit (Prompt ''mode'') s7" P] obtain es where
      "trace (snd (showCommandsList e (emit (Prompt ''mode'') s7)))
         = trace (emit (Prompt ''mode'') s7) @ es" and "\<forall>ev\<in>set es. \<not> touches P ev"
      by (elim exE conjE)
    with q7 Inr show ?thesis by (auto simp: final)
  qed
  from files f7 fc quiet show ?thesis
    by (simp add: run P_def cong: option.case_cong)
qed

theorem spa_leaves_config_untouched_witness:
  "fs (snd (initializeProject (sample_env sample_args Choice_Nuxt_js True SPA config_with_mode)
              ''my-app'' (init_state Map.empty\<lparr>trace := []\<rparr>))) ''./my-app/nuxt.config.js''
     = Some config_with_mode
   \<and> \<not> touches ''./my-app/nuxt.config.js''
         (last (trace (snd (initializeProject
                  (sample_env sample_args Choice_Nuxt_js True SPA config_with_mode)
                  ''my-app'' (init_state Map.empty\<lparr>trace := []\<rparr>)))))"
proof -
  define tr where "tr = trace (snd (initializeProject
                  (sample_env sample_args Choice_Nuxt_js True SPA config_with_mode)
                  ''my-app'' (init_state Map.empty\<lparr>trace := []\<rparr>)))"
  have "\<exists>es. tr = Banner ''Mevn CLI'' ''Light speed setup for MEVN stack based apps.'' # es"
    using initializeProject_cloned_trace [OF sample_passes sample_clones,
        of Choice_Nuxt_js True SPA config_with_mode "init_state Map.empty\<lparr>trace := []\<rparr>"]
    by (auto simp: tr_def)
  then have "tr \<noteq> []" by auto
  then have "last tr \<in> set tr" by simp
  with spa_leaves_config_untouched [OF sample_passes _ _ sample_clones,
      of Choice_Nuxt_js True SPA config_with_mode "init_state Map.empty"]
  show ?thesis
    unfolding tr_def by (simp add: sample_fields)
qed






section \<open>The finalizer\<close>












end
